theory Spec2Isabelle
  imports Complex_Main
begin

section \<open>Video ingestion worker: data model\<close>

text \<open>
  The worker keeps its state in a Postgres database. The tables are modelled as lists of
  records (one record per row, in table order), a statement \<open>UPDATE ... WHERE\<close> as a map
  over the rows the condition selects, \<open>fetch_one\<close> as the first selected row.
  Timestamps are integers (microseconds since the epoch); \<open>NOW()\<close> and
  \<open>datetime.now(timezone.utc)\<close> are the parameter \<open>now\<close> of the operation.
  A statement on these tables succeeds; where the source distinguishes the ways a
  statement fails (the occurrence insert), its outcomes are explicit.
  A Python \<open>str\<close> is a \<open>string\<close>, one element per character.
\<close>

type_synonym timestamp = int

record video_row =
  v_id :: int
  v_video_uid :: string
  v_status :: string
  v_storage_path :: string
  v_hls_path :: "string option"
  v_structured_transcript_path :: "string option"
  v_updated_at :: "timestamp option"

record ingest_job_row =
  j_object_key :: string
  j_etag :: string
  j_video_uid :: string
  j_video_id :: int
  j_status :: string
  j_started_at :: "timestamp option"
  j_finished_at :: "timestamp option"
  j_retry_count :: int
  j_err :: "string option"

text \<open>A card sent to the Lark webhook (\<open>LarkClient.send_error\<close>).\<close>

record notification =
  n_error_type :: string
  n_error_message :: string
  n_context :: "(string \<times> string) list"

record database =
  videos :: "video_row list"
  video_id_seq :: int
  ingest_jobs :: "ingest_job_row list"
  lark_sent :: "notification list"

definition sql_update :: "('r \<Rightarrow> bool) \<Rightarrow> ('r \<Rightarrow> 'r) \<Rightarrow> 'r list \<Rightarrow> 'r list" where
  "sql_update cond assign rows = map (\<lambda>r. if cond r then assign r else r) rows"

definition fetch_one :: "('r \<Rightarrow> bool) \<Rightarrow> 'r list \<Rightarrow> 'r option" where
  "fetch_one cond rows = find cond rows"

text \<open>Python truthiness of an \<open>Optional[str]\<close>: \<open>None\<close> and the empty string are false.\<close>

fun truthy :: "string option \<Rightarrow> bool" where
  "truthy None = False"
| "truthy (Some s) = (s \<noteq> [])"

section \<open>Persistence: \<open>update_video_status\<close>\<close>

text \<open>
  \<open>PersistenceService.update_video_status\<close> (domain/persistence.py) builds the list of
  assignments of one \<open>UPDATE video SET ... WHERE id = $1\<close>: status and updated_at always,
  hls_path and structured_transcript_path only under \<open>if hls_path:\<close> and
  \<open>if transcript_path:\<close>.
\<close>

definition update_video_status ::
  "database \<Rightarrow> timestamp \<Rightarrow> int \<Rightarrow> string \<Rightarrow> string option \<Rightarrow> string option \<Rightarrow> database" where
  "update_video_status db now video_id status hls_path transcript_path =
     (let updates = [\<lambda>r. r\<lparr>v_status := status\<rparr>, \<lambda>r. r\<lparr>v_updated_at := Some now\<rparr>];
          updates = (if truthy hls_path
                     then updates @ [\<lambda>r. r\<lparr>v_hls_path := hls_path\<rparr>] else updates);
          updates = (if truthy transcript_path
                     then updates @ [\<lambda>r. r\<lparr>v_structured_transcript_path := transcript_path\<rparr>]
                     else updates)
      in db\<lparr>videos := sql_update (\<lambda>r. v_id r = video_id) (\<lambda>r. fold (\<lambda>u. u) updates r) (videos db)\<rparr>)"

text \<open>The example database of the closed statements below.\<close>

definition video_7 :: video_row where
  "video_7 = \<lparr>v_id = 7, v_video_uid = ''uid-7'', v_status = ''PROCESSING'',
     v_storage_path = ''gs://raw/uploads/uid-7/v.mp4'', v_hls_path = Some ''gs://hls/uid-7/manifest.m3u8'',
     v_structured_transcript_path = None, v_updated_at = None\<rparr>"

definition video_8 :: video_row where
  "video_8 = \<lparr>v_id = 8, v_video_uid = ''uid-8'', v_status = ''READY'',
     v_storage_path = ''gs://raw/uploads/uid-8/v.mp4'', v_hls_path = None,
     v_structured_transcript_path = Some ''gs://tr/uid-8/asr.json'', v_updated_at = Some 5\<rparr>"

definition db_two_videos :: database where
  "db_two_videos = \<lparr>videos = [video_7, video_8], video_id_seq = 9, ingest_jobs = [], lark_sent = []\<rparr>"

section \<open>Ingest controller: idempotency check and failure handler\<close>

text \<open>The exception hierarchy of errors.py: the class, the message and the retryable flag.\<close>

datatype error_class =
  WorkflowError | IdempotencyError | TranscodingError | ASRError | AgenticError
  | PersistenceError | MCPError

record workflow_error =
  e_class :: error_class
  e_message :: string
  e_retryable :: bool

fun class_name :: "error_class \<Rightarrow> string" where
  "class_name WorkflowError = ''WorkflowError''"
| "class_name IdempotencyError = ''IdempotencyError''"
| "class_name TranscodingError = ''TranscodingError''"
| "class_name ASRError = ''ASRError''"
| "class_name AgenticError = ''AgenticError''"
| "class_name PersistenceError = ''PersistenceError''"
| "class_name MCPError = ''MCPError''"

definition mk_WorkflowError :: "string \<Rightarrow> workflow_error" where
  "mk_WorkflowError msg = \<lparr>e_class = WorkflowError, e_message = msg, e_retryable = True\<rparr>"

definition mk_IdempotencyError :: "string \<Rightarrow> workflow_error" where
  "mk_IdempotencyError msg = \<lparr>e_class = IdempotencyError, e_message = msg, e_retryable = False\<rparr>"

definition mk_ASRError :: "string \<Rightarrow> workflow_error" where
  "mk_ASRError msg = \<lparr>e_class = ASRError, e_message = msg, e_retryable = True\<rparr>"

text \<open>\<open>PubSubMessage\<close> and \<open>IngestJob\<close> of types.py.\<close>

record pubsub_message =
  m_bucket :: string
  m_object_name :: string
  m_video_uid :: string
  m_etag :: string
  m_generation :: string
  m_event_time :: timestamp

record ingest_job =
  job_object_key :: string
  job_etag :: string
  job_video_uid :: string
  job_video_id :: int
  job_status :: string
  job_retry_count :: int

definition PROCESSING_TIMEOUT_SECONDS :: int where
  "PROCESSING_TIMEOUT_SECONDS = 3600"

text \<open>
  \<open>elapsed = (datetime.now(timezone.utc) - started_at).total_seconds()\<close>, compared with
  the timeout: on microsecond timestamps, \<open>elapsed < PROCESSING_TIMEOUT_SECONDS\<close>.
\<close>

definition elapsed_below_timeout :: "timestamp \<Rightarrow> timestamp \<Rightarrow> bool" where
  "elapsed_below_timeout now started_at \<longleftrightarrow>
     now - started_at < PROCESSING_TIMEOUT_SECONDS * 1000000"

text \<open>
  \<open>_get_or_create_video\<close>: the id of the video row with this video_uid, or of a new row
  \<open>(video_uid, 'PROCESSING', gs://raw_bucket/object_name)\<close> whose id comes from the sequence.
\<close>

definition get_or_create_video :: "string \<Rightarrow> database \<Rightarrow> string \<Rightarrow> string \<Rightarrow> int \<times> database" where
  "get_or_create_video raw_bucket db video_uid object_name =
     (case fetch_one (\<lambda>r. v_video_uid r = video_uid) (videos db) of
        Some row \<Rightarrow> (v_id row, db)
      | None \<Rightarrow>
          (let storage_path = ''gs://'' @ raw_bucket @ ''/'' @ object_name;
               row = \<lparr>v_id = video_id_seq db, v_video_uid = video_uid, v_status = ''PROCESSING'',
                      v_storage_path = storage_path, v_hls_path = None,
                      v_structured_transcript_path = None, v_updated_at = None\<rparr>
           in (v_id row, db\<lparr>videos := videos db @ [row], video_id_seq := video_id_seq db + 1\<rparr>)))"

definition job_key :: "pubsub_message \<Rightarrow> ingest_job_row \<Rightarrow> bool" where
  "job_key message r \<longleftrightarrow> j_object_key r = m_object_name message \<and> j_etag r = m_etag message"

definition job_of_row :: "ingest_job_row \<Rightarrow> ingest_job" where
  "job_of_row row = \<lparr>job_object_key = j_object_key row, job_etag = j_etag row,
     job_video_uid = j_video_uid row, job_video_id = j_video_id row,
     job_status = j_status row, job_retry_count = j_retry_count row\<rparr>"

definition reset_to_queued :: "ingest_job_row \<Rightarrow> ingest_job_row" where
  "reset_to_queued r = r\<lparr>j_status := ''queued'', j_started_at := None,
     j_retry_count := j_retry_count r + 1\<rparr>"

text \<open>
  \<open>IngestVideoWorkflow._check_idempotency\<close> (application/workflow.py). A raised
  \<open>IdempotencyError\<close> is \<open>Inl\<close>, the returned job is \<open>Inr\<close>. retry_count of the inserted
  row is the column default 0, as the returned \<open>IngestJob\<close> has it.
\<close>

definition check_idempotency ::
  "string \<Rightarrow> database \<Rightarrow> timestamp \<Rightarrow> pubsub_message \<Rightarrow> (workflow_error + ingest_job) \<times> database" where
  "check_idempotency raw_bucket db now message =
     (case fetch_one (job_key message) (ingest_jobs db) of
        Some row \<Rightarrow>
          if j_status row = ''done'' then (Inl (mk_IdempotencyError ''Task already completed''), db)
          else if j_status row = ''processing'' then
            (case j_started_at row of
               Some started_at \<Rightarrow>
                 if elapsed_below_timeout now started_at
                 then (Inl (mk_IdempotencyError ''Task already processing''), db)
                 else (Inr (job_of_row row),
                       db\<lparr>ingest_jobs := sql_update (job_key message) reset_to_queued (ingest_jobs db)\<rparr>)
             | None \<Rightarrow> (Inr (job_of_row row), db))
          else (Inr (job_of_row row), db)
      | None \<Rightarrow>
          (let (video_id, db1) = get_or_create_video raw_bucket db (m_video_uid message) (m_object_name message);
               new_row = \<lparr>j_object_key = m_object_name message, j_etag = m_etag message,
                          j_video_uid = m_video_uid message, j_video_id = video_id,
                          j_status = ''processing'', j_started_at = Some now,
                          j_finished_at = None, j_retry_count = 0, j_err = None\<rparr>
           in (Inr \<lparr>job_object_key = m_object_name message, job_etag = m_etag message,
                    job_video_uid = m_video_uid message, job_video_id = video_id,
                    job_status = ''processing'', job_retry_count = 0\<rparr>,
               db1\<lparr>ingest_jobs := ingest_jobs db1 @ [new_row]\<rparr>)))"

text \<open>
  \<open>_handle_error\<close>: the job update is guarded by \<open>WHERE video_uid = $2 AND status =
  'processing'\<close>, the video update by \<open>WHERE video_uid = $1\<close>; then one error card is sent.
\<close>

definition py_str_bool :: "bool \<Rightarrow> string" where
  "py_str_bool b = (if b then ''True'' else ''False'')"

definition handle_error :: "database \<Rightarrow> timestamp \<Rightarrow> string \<Rightarrow> workflow_error \<Rightarrow> database" where
  "handle_error db now video_uid error =
     (let db1 = db\<lparr>ingest_jobs :=
                  sql_update (\<lambda>r. j_video_uid r = video_uid \<and> j_status r = ''processing'')
                    (\<lambda>r. r\<lparr>j_status := ''error'', j_err := Some (e_message error),
                            j_finished_at := Some now\<rparr>)
                    (ingest_jobs db)\<rparr>;
          db2 = db1\<lparr>videos :=
                  sql_update (\<lambda>r. v_video_uid r = video_uid) (\<lambda>r. r\<lparr>v_status := ''ERROR''\<rparr>)
                    (videos db1)\<rparr>
      in db2\<lparr>lark_sent := lark_sent db2 @
               [\<lparr>n_error_type = class_name (e_class error), n_error_message = e_message error,
                 n_context = [(''video_uid'', video_uid),
                              (''retryable'', py_str_bool (e_retryable error))]\<rparr>]\<rparr>)"

text \<open>
  \<open>_finalize\<close>: the video is set to \<open>READY\<close> with its paths, then the job is set to
  \<open>done\<close> by \<open>WHERE object_key = $1 AND etag = $2\<close>, whatever its status.
\<close>

definition finalize :: "database \<Rightarrow> timestamp \<Rightarrow> ingest_job \<Rightarrow> string option \<Rightarrow> string \<Rightarrow> database" where
  "finalize db now job hls_path asr_json_uri =
     (let db1 = update_video_status db now (job_video_id job) ''READY'' hls_path (Some asr_json_uri)
      in db1\<lparr>ingest_jobs :=
               sql_update (\<lambda>r. j_object_key r = job_object_key job \<and> j_etag r = job_etag job)
                 (\<lambda>r. r\<lparr>j_status := ''done'', j_finished_at := Some now\<rparr>)
                 (ingest_jobs db1)\<rparr>)"

text \<open>
  \<open>process_message\<close>: step 0 is the idempotency check; steps 1 to 6 (transcoding, ASR,
  annotation, persistence, finalize) are the parameter \<open>steps\<close>, which either raises a
  \<open>WorkflowError\<close> (\<open>Inl (Inl e)\<close>), raises another exception with text \<open>s\<close>
  (\<open>Inl (Inr s)\<close>) or returns. Both \<open>except\<close> clauses call \<open>_handle_error\<close> and re-raise.
\<close>

type_synonym raised = "workflow_error + string"

definition process_message ::
  "string \<Rightarrow> (ingest_job \<Rightarrow> database \<Rightarrow> (raised + unit) \<times> database) \<Rightarrow>
   database \<Rightarrow> timestamp \<Rightarrow> pubsub_message \<Rightarrow> (raised + unit) \<times> database" where
  "process_message raw_bucket steps db now message =
     (let (res, db1) =
            (case check_idempotency raw_bucket db now message of
               (Inl e, db0) \<Rightarrow> (Inl (Inl e), db0)
             | (Inr job, db0) \<Rightarrow> steps job db0)
      in case res of
           Inl (Inl e) \<Rightarrow> (Inl (Inl e), handle_error db1 now (m_video_uid message) e)
         | Inl (Inr s) \<Rightarrow> (Inl (Inr s), handle_error db1 now (m_video_uid message) (mk_WorkflowError s))
         | Inr u \<Rightarrow> (Inr u, db1))"

text \<open>Example: one video, one job of message \<open>msg_v\<close>, in a given status.\<close>

definition msg_v :: pubsub_message where
  "msg_v = \<lparr>m_bucket = ''raw'', m_object_name = ''uploads/uid-7/v.mp4'', m_video_uid = ''uid-7'',
     m_etag = ''abc'', m_generation = ''1'', m_event_time = 0\<rparr>"

definition job_v :: "string \<Rightarrow> timestamp option \<Rightarrow> ingest_job_row" where
  "job_v status started = \<lparr>j_object_key = ''uploads/uid-7/v.mp4'', j_etag = ''abc'',
     j_video_uid = ''uid-7'', j_video_id = 7, j_status = status, j_started_at = started,
     j_finished_at = None, j_retry_count = 0, j_err = None\<rparr>"

definition db_job :: "string \<Rightarrow> timestamp option \<Rightarrow> database" where
  "db_job status started =
     \<lparr>videos = [video_7], video_id_seq = 8, ingest_jobs = [job_v status started], lark_sent = []\<rparr>"

definition db_no_job :: database where
  "db_no_job = \<lparr>videos = [], video_id_seq = 7, ingest_jobs = [], lark_sent = []\<rparr>"

text \<open>Steps 1 to 6 failing in ASR after its retries.\<close>

definition asr_fails :: "ingest_job \<Rightarrow> database \<Rightarrow> (raised + unit) \<times> database" where
  "asr_fails job db = (Inl (Inl (mk_ASRError ''ASR failed after 3 retries'')), db)"

section \<open>JSON values and Python tests on them\<close>

text \<open>
  What \<open>json.loads\<close> returns. A float is a finite double (a rational number) or one of
  the three special values Python's parser accepts. A dict is the list of its items.
\<close>

datatype pyfloat = Finite rat | PosInf | NegInf | NaN

datatype json =
  JNull | JBool bool | JInt int | JFloat pyfloat | JStr string
  | JArr "json list" | JObj "(string \<times> json) list"

type_synonym pydict = "(string \<times> json) list"

text \<open>\<open>k in d\<close>, \<open>d.get(k, default)\<close> and \<open>d[k]\<close> behind a membership test.\<close>

definition has_key :: "pydict \<Rightarrow> string \<Rightarrow> bool" where
  "has_key d k \<longleftrightarrow> map_of d k \<noteq> None"

definition dict_get :: "pydict \<Rightarrow> string \<Rightarrow> json \<Rightarrow> json" where
  "dict_get d k dflt = (case map_of d k of Some v \<Rightarrow> v | None \<Rightarrow> dflt)"

definition item :: "pydict \<Rightarrow> string \<Rightarrow> json" where
  "item d k = dict_get d k JNull"

text \<open>\<open>isinstance(x, int)\<close> holds of a bool too: \<open>bool\<close> is a subclass of \<open>int\<close>.\<close>

fun isinstance_int :: "json \<Rightarrow> bool" where
  "isinstance_int (JInt n) = True"
| "isinstance_int (JBool b) = True"
| "isinstance_int v = False"

fun isinstance_int_float :: "json \<Rightarrow> bool" where
  "isinstance_int_float (JInt n) = True"
| "isinstance_int_float (JBool b) = True"
| "isinstance_int_float (JFloat f) = True"
| "isinstance_int_float v = False"

fun int_value :: "json \<Rightarrow> int" where
  "int_value (JInt n) = n"
| "int_value (JBool b) = (if b then 1 else 0)"
| "int_value v = 0"

text \<open>\<open>0.0 <= v <= 1.0\<close> on a value that passed \<open>isinstance(v, (int, float))\<close>.\<close>

fun in_unit_interval :: "json \<Rightarrow> bool" where
  "in_unit_interval (JInt n) = (0 \<le> n \<and> n \<le> 1)"
| "in_unit_interval (JBool b) = True"
| "in_unit_interval (JFloat (Finite r)) = (0 \<le> r \<and> r \<le> 1)"
| "in_unit_interval v = False"

section \<open>Annotators: \<open>validate_annotation\<close>\<close>

record segment =
  seg_start :: rat
  seg_end :: rat
  seg_text :: string
  seg_lang :: string

datatype annotator = PhraseAnnotator | WordAnnotator

fun get_kind :: "annotator \<Rightarrow> string" where
  "get_kind PhraseAnnotator = ''phrase_sense''"
| "get_kind WordAnnotator = ''word_sense''"

definition required :: "string list" where
  "required = [''segment_index'', ''fine_id'', ''span'', ''rationale'',
               ''visual_comprehensibility'', ''textual_comprehensibility'']"

text \<open>
  The body of \<open>WordAnnotator.validate_annotation\<close> (annotators/word.py), check by check
  in the source's order; \<open>PhraseAnnotator.validate_annotation\<close> has the same body. The
  method receives the annotation and the segment, not the segment's index.
\<close>

definition validate_fields :: "pydict \<Rightarrow> segment \<Rightarrow> bool" where
  "validate_fields ann segment =
     (if \<not> list_all (has_key ann) required then False
      else if \<not> isinstance_int (item ann ''segment_index'') then False
      else if \<not> isinstance_int (item ann ''fine_id'') then False
      else
        let v_comp = item ann ''visual_comprehensibility'';
            t_comp = item ann ''textual_comprehensibility''
        in if \<not> isinstance_int_float v_comp \<or> \<not> in_unit_interval v_comp then False
           else if \<not> isinstance_int_float t_comp \<or> \<not> in_unit_interval t_comp then False
           else
             (case item ann ''span'' of
                JObj span_d \<Rightarrow>
                  if \<not> has_key span_d ''start'' \<or> \<not> has_key span_d ''end'' then False
                  else
                    let span_start = item span_d ''start''; span_end = item span_d ''end'';
                        text_len = int (length (seg_text segment))
                    in if \<not> isinstance_int span_start \<or> \<not> isinstance_int span_end then False
                       else if \<not> (0 \<le> int_value span_start \<and> int_value span_start < int_value span_end
                                   \<and> int_value span_end \<le> text_len) then False
                       else
                         (case item ann ''rationale'' of
                            JStr r \<Rightarrow> if length r = 0 then False else True
                          | _ \<Rightarrow> False)
              | _ \<Rightarrow> False))"

fun validate_annotation :: "annotator \<Rightarrow> pydict \<Rightarrow> segment \<Rightarrow> bool" where
  "validate_annotation WordAnnotator ann segment = validate_fields ann segment"
| "validate_annotation PhraseAnnotator ann segment = validate_fields ann segment"

section \<open>Annotation orchestrator\<close>

text \<open>
  What one call of \<open>VertexClient.call_with_tools\<close> for a segment index and an annotator
  gives \<open>_process_segment\<close>: a \<open>VertexError\<close>; a reply in the shape of the response schema
  (an object whose \<open>annotations\<close>, when present, is an array of objects); or a reply on
  which the code after the call raises an exception that is not a \<open>VertexError\<close>.
\<close>

datatype lm_result =
  VertexFailure string
  | Reply "pydict list option"
  | Unexpected string

type_synonym language_model = "nat \<Rightarrow> annotator \<Rightarrow> lm_result"

text \<open>
  The result of \<open>_process_segment\<close>: the valid annotations, the annotations for which a
  validation warning was logged, and the error cards sent.
\<close>

record segment_output =
  valid_anns :: "pydict list"
  warned :: "pydict list"
  cards :: "notification list"

definition process_segment ::
  "language_model \<Rightarrow> segment \<Rightarrow> nat \<Rightarrow> annotator \<Rightarrow> string + segment_output" where
  "process_segment lm segment segment_index annotator =
     (case lm segment_index annotator of
        Reply response \<Rightarrow>
          (let annotations = (case response of Some anns \<Rightarrow> anns | None \<Rightarrow> [])
           in Inr \<lparr>valid_anns = filter (\<lambda>ann. validate_annotation annotator ann segment) annotations,
                   warned = filter (\<lambda>ann. \<not> validate_annotation annotator ann segment) annotations,
                   cards = []\<rparr>)
      | VertexFailure e \<Rightarrow>
          Inr \<lparr>valid_anns = [], warned = [],
               cards = [\<lparr>n_error_type = ''Gemini API call failed'', n_error_message = e,
                         n_context = [(''annotator'', get_kind annotator)]\<rparr>]\<rparr>
      | Unexpected e \<Rightarrow> Inl e)"

text \<open>
  \<open>process_one\<close> inside \<open>_process_segments_concurrent\<close>: the phrase annotator first, then
  the word annotator; any exception turns the whole segment into the empty list and a card.
\<close>

definition segment_failed_card :: "string \<Rightarrow> notification" where
  "segment_failed_card e =
     \<lparr>n_error_type = ''Segment processing failed'', n_error_message = e, n_context = []\<rparr>"

definition process_one :: "language_model \<Rightarrow> nat \<Rightarrow> segment \<Rightarrow> pydict list \<times> notification list" where
  "process_one lm idx segment =
     (case process_segment lm segment idx PhraseAnnotator of
        Inl e \<Rightarrow> ([], [segment_failed_card e])
      | Inr phrase_out \<Rightarrow>
          (case process_segment lm segment idx WordAnnotator of
             Inl e \<Rightarrow> ([], cards phrase_out @ [segment_failed_card e])
           | Inr word_out \<Rightarrow>
               (valid_anns phrase_out @ valid_anns word_out, cards phrase_out @ cards word_out)))"

text \<open>
  \<open>_process_segments_concurrent\<close>: one task per \<open>enumerate(segments)\<close> entry;
  \<open>asyncio.gather\<close> returns the tasks' results in task order whatever the schedule under the
  semaphore, and the batches are appended in that order.
\<close>

definition process_segments_concurrent :: "language_model \<Rightarrow> segment list \<Rightarrow> pydict list" where
  "process_segments_concurrent lm segments =
     (let results = map (\<lambda>(idx, seg). fst (process_one lm idx seg)) (enumerate 0 segments)
      in foldl (\<lambda>all_annotations batch. all_annotations @ batch) [] results)"

text \<open>
  \<open>_create_cached_content_with_fallback\<close>. \<open>VertexClient.create_cached_content\<close> turns every
  failure into a \<open>VertexError\<close>, so a creation request (with the video URI, or \<open>None\<close> for
  the text-only cache) either fails with a message or yields a cache. The third component
  is the list of the requests made, in order.
\<close>

type_synonym cache_service = "string option \<Rightarrow> segment list \<Rightarrow> string + string"

definition create_cached_content :: "cache_service \<Rightarrow> string option \<Rightarrow> segment list \<Rightarrow> bool \<Rightarrow> string + string" where
  "create_cached_content vertex video_uri segments multimodal =
     vertex (if multimodal then video_uri else None) segments"

definition create_cached_content_with_fallback ::
  "cache_service \<Rightarrow> string option \<Rightarrow> segment list \<Rightarrow> string option \<times> string \<times> string option list" where
  "create_cached_content_with_fallback vertex video_uri segments =
     (let first_try =
            (if truthy video_uri
             then (case create_cached_content vertex video_uri segments True of
                     Inr cached_content \<Rightarrow> (Some (cached_content, ''gemini_video''), [video_uri])
                   | Inl e \<Rightarrow> (None, [video_uri]))
             else (None, []))
      in case first_try of
           (Some (cached_content, method), requests) \<Rightarrow> (Some cached_content, method, requests)
         | (None, requests) \<Rightarrow>
             (case create_cached_content vertex None segments False of
                Inr cached_content \<Rightarrow> (Some cached_content, ''gemini_text'', requests @ [None])
              | Inl e \<Rightarrow> (None, ''gemini_nocache'', requests @ [None])))"

text \<open>
  \<open>process_video\<close>: the annotations, the method tag and the ontology version (the
  configured model name). The language model the segments are sent to may depend on the
  cache obtained.
\<close>

definition process_video ::
  "cache_service \<Rightarrow> (string option \<Rightarrow> language_model) \<Rightarrow> string \<Rightarrow> string option \<Rightarrow> segment list
   \<Rightarrow> pydict list \<times> string \<times> string" where
  "process_video vertex lm gemini_model video_uri segments =
     (let (cached_content, method, requests) =
            create_cached_content_with_fallback vertex video_uri segments;
          annotations = process_segments_concurrent (lm cached_content) segments
      in (annotations, method, gemini_model))"


text \<open>
  Examples: the segment and the phrase annotation of the happy-path scenario, the same
  annotation carrying another segment's index, one with an empty rationale, and language
  models that answer every call alike.
\<close>

definition seg_give_up :: segment where
  "seg_give_up = \<lparr>seg_start = 0, seg_end = 7 / 2,
     seg_text = ''I want to give up learning English'', seg_lang = ''en''\<rparr>"

definition mk_ann :: "json \<Rightarrow> int \<Rightarrow> int \<Rightarrow> int \<Rightarrow> string \<Rightarrow> pydict" where
  "mk_ann segment_index fine_id span_start span_end rationale =
     [(''segment_index'', segment_index), (''fine_id'', JInt fine_id),
      (''span'', JObj [(''start'', JInt span_start), (''end'', JInt span_end)]),
      (''rationale'', JStr rationale),
      (''visual_comprehensibility'', JFloat (Finite (17 / 20))),
      (''textual_comprehensibility'', JFloat (Finite (7 / 10)))]"

definition ann_give_up :: pydict where
  "ann_give_up = mk_ann (JInt 0) 23456 10 17 ''stop trying''"

definition ann_want :: pydict where
  "ann_want = mk_ann (JInt 0) 777 2 6 ''desire''"

definition ann_wrong_index :: pydict where
  "ann_wrong_index = mk_ann (JInt 5) 23456 10 17 ''stop trying''"

definition ann_no_rationale :: pydict where
  "ann_no_rationale = mk_ann (JInt 0) 23456 10 17 []"

definition lm_fixed :: "pydict list \<Rightarrow> pydict list \<Rightarrow> language_model" where
  "lm_fixed phrase_anns word_anns idx annotator =
     (case annotator of PhraseAnnotator \<Rightarrow> Reply (Some phrase_anns)
                      | WordAnnotator \<Rightarrow> Reply (Some word_anns))"


section \<open>Persistence: \<open>save_video_analysis\<close>\<close>

text \<open>Python's \<open>sub in s\<close> on strings and \<open>s.lower()\<close> (SQL \<open>LOWER\<close>) on ASCII letters.\<close>

fun is_prefix :: "string \<Rightarrow> string \<Rightarrow> bool" where
  "is_prefix [] s = True"
| "is_prefix (c # cs) [] = False"
| "is_prefix (c # cs) (d # ds) = (c = d \<and> is_prefix cs ds)"

fun contains :: "string \<Rightarrow> string \<Rightarrow> bool" where
  "contains sub [] = (sub = [])"
| "contains sub (c # cs) = (is_prefix sub (c # cs) \<or> contains sub cs)"

definition lower_char :: "char \<Rightarrow> char" where
  "lower_char c =
     (case map_of (zip ''ABCDEFGHIJKLMNOPQRSTUVWXYZ'' ''abcdefghijklmnopqrstuvwxyz'') c of
        Some d \<Rightarrow> d | None \<Rightarrow> c)"

definition lower :: "string \<Rightarrow> string" where
  "lower s = map lower_char s"

text \<open>
  The exceptions \<open>_insert_occurrences\<close> distinguishes, in the order of its \<open>except\<close>
  clauses: \<open>asyncpg.ForeignKeyViolationError\<close>, any other \<open>asyncpg.PostgresError\<close>, the
  \<open>DatabaseError\<close> wrapper, any other exception; each with its \<open>str(e)\<close>.
\<close>

datatype py_exception =
  ForeignKeyViolationError string
  | PostgresError string
  | DatabaseError string
  | OtherException string

text \<open>\<open>conn.execute\<close> returns the command status (\<open>INSERT 0 1\<close>, \<open>INSERT 0 0\<close>) or raises.\<close>

datatype exec_outcome = Status string | Raised py_exception

text \<open>The six parameters of the occurrence insert; a stored occurrence row has the same columns.\<close>

record occurrence =
  o_segment_id :: int
  o_fine_id :: json
  o_reliability_score :: json
  o_detection_method :: string
  o_evidence :: pydict
  o_ontology_ver :: string

type_synonym 'c executor = "'c \<Rightarrow> occurrence \<Rightarrow> exec_outcome \<times> 'c"

text \<open>\<open>xs[i]\<close> on a Python list: \<open>-1\<close> is the last element; beyond either end, \<open>IndexError\<close>.\<close>

definition py_index :: "'a list \<Rightarrow> int \<Rightarrow> string + 'a" where
  "py_index xs i =
     (if 0 \<le> i \<and> i < int (length xs) then Inr (xs ! nat i)
      else if i < 0 \<and> - int (length xs) \<le> i then Inr (xs ! nat (int (length xs) + i))
      else Inl ''list index out of range'')"

text \<open>
  \<open>segment_index = ann.get("segment_index")\<close>, the test
  \<open>segment_index is None or segment_index >= len(segment_ids)\<close> and
  \<open>segment_ids[segment_index]\<close>: the annotation is skipped with a warning (\<open>Invalid\<close>), a
  segment id is found, or the comparison or the indexing raises.
\<close>

datatype index_result = Invalid | Indexed int | IndexRaises string

fun float_ge_len :: "pyfloat \<Rightarrow> nat \<Rightarrow> bool" where
  "float_ge_len (Finite r) n = (r \<ge> of_nat n)"
| "float_ge_len PosInf n = True"
| "float_ge_len NegInf n = False"
| "float_ge_len NaN n = False"

definition index_int :: "int list \<Rightarrow> int \<Rightarrow> index_result" where
  "index_int segment_ids n =
     (if n \<ge> int (length segment_ids) then Invalid
      else case py_index segment_ids n of Inr v \<Rightarrow> Indexed v | Inl e \<Rightarrow> IndexRaises e)"

fun lookup_segment_id :: "int list \<Rightarrow> json \<Rightarrow> index_result" where
  "lookup_segment_id segment_ids JNull = Invalid"
| "lookup_segment_id segment_ids (JInt n) = index_int segment_ids n"
| "lookup_segment_id segment_ids (JBool b) = index_int segment_ids (if b then 1 else 0)"
| "lookup_segment_id segment_ids (JFloat f) =
     (if float_ge_len f (length segment_ids) then Invalid
      else IndexRaises ''list indices must be integers or slices, not float'')"
| "lookup_segment_id segment_ids v = IndexRaises ''>= not supported between these instances''"

text \<open>
  The loop's variables. \<open>first_error\<close> holds the dict of the first exception: the
  \<open>error_detail\<close> of a Postgres error (annotation index, segment_index, fine_id, message) or
  \<open>{annotation_index, error}\<close> of the two other clauses.
\<close>

datatype error_info = ErrorDetail nat json json string | ErrorText nat string

record loop_state =
  inserted :: nat
  skipped :: nat
  first_error :: "error_info option"

fun get_error :: "error_info option \<Rightarrow> string option" where
  "get_error (Some (ErrorText idx msg)) = Some msg"
| "get_error fe = None"

definition set_first :: "error_info \<Rightarrow> loop_state \<Rightarrow> loop_state" where
  "set_first info st = (if first_error st = None then st\<lparr>first_error := Some info\<rparr> else st)"

definition skip :: "loop_state \<Rightarrow> loop_state" where
  "skip st = st\<lparr>skipped := skipped st + 1\<rparr>"

text \<open>The three \<open>except\<close> clauses: \<open>Inl\<close> re-raises, \<open>Inr\<close> goes on with the next annotation.\<close>

fun handle_exception :: "nat \<Rightarrow> pydict \<Rightarrow> py_exception \<Rightarrow> loop_state \<Rightarrow> py_exception + loop_state" where
  "handle_exception idx ann (ForeignKeyViolationError msg) st =
     (let error_detail = ErrorDetail idx (dict_get ann ''segment_index'' JNull)
                           (dict_get ann ''fine_id'' JNull) msg;
          st = set_first error_detail st
      in Inr (skip st))"
| "handle_exception idx ann (PostgresError msg) st =
     (let error_detail = ErrorDetail idx (dict_get ann ''segment_index'' JNull)
                           (dict_get ann ''fine_id'' JNull) msg;
          st = set_first error_detail st
      in if first_error st = Some error_detail then Inl (PostgresError msg) else Inr (skip st))"
| "handle_exception idx ann (DatabaseError msg) st =
     (let st = set_first (ErrorText idx msg) st
      in if contains ''foreign key'' (lower msg) \<or> contains ''violates foreign key'' (lower msg)
         then Inr (skip st)
         else if get_error (first_error st) = Some msg then Inl (DatabaseError msg)
         else Inr (skip st))"
| "handle_exception idx ann (OtherException msg) st =
     (let st = set_first (ErrorText idx msg) st in Inr (skip st))"

text \<open>The body of the \<open>try\<close> for one annotation.\<close>

definition build_occurrence :: "int \<Rightarrow> json \<Rightarrow> pydict \<Rightarrow> string \<Rightarrow> string \<Rightarrow> occurrence" where
  "build_occurrence segment_id fine_id ann method ontology_ver =
     \<lparr>o_segment_id = segment_id, o_fine_id = fine_id,
      o_reliability_score = dict_get ann ''score'' (JFloat (Finite (1 / 2))),
      o_detection_method = method,
      o_evidence = [(''span'', dict_get ann ''span'' (JObj [])),
                    (''rationale'', dict_get ann ''rationale'' (JStr [])),
                    (''visual_comprehensibility'', dict_get ann ''visual_comprehensibility'' JNull),
                    (''textual_comprehensibility'', dict_get ann ''textual_comprehensibility'' JNull)],
      o_ontology_ver = ontology_ver\<rparr>"

definition insert_one ::
  "'c executor \<Rightarrow> int list \<Rightarrow> string \<Rightarrow> string \<Rightarrow> nat \<Rightarrow> pydict \<Rightarrow> loop_state \<Rightarrow> 'c
   \<Rightarrow> (py_exception + loop_state) \<times> 'c" where
  "insert_one execute segment_ids method ontology_ver idx ann st conn =
     (case lookup_segment_id segment_ids (dict_get ann ''segment_index'' JNull) of
        Invalid \<Rightarrow> (Inr (skip st), conn)
      | IndexRaises msg \<Rightarrow> (handle_exception idx ann (OtherException msg) st, conn)
      | Indexed segment_id \<Rightarrow>
          (case map_of ann ''fine_id'' of
             None \<Rightarrow> (handle_exception idx ann (OtherException ''fine_id'') st, conn)
           | Some fine_id \<Rightarrow>
               (case execute conn (build_occurrence segment_id fine_id ann method ontology_ver) of
                  (Status result, conn') \<Rightarrow>
                    (Inr (if contains ''INSERT 0 1'' result
                          then st\<lparr>inserted := inserted st + 1\<rparr> else st), conn')
                | (Raised e, conn') \<Rightarrow> (handle_exception idx ann e st, conn'))))"

fun insert_loop ::
  "'c executor \<Rightarrow> int list \<Rightarrow> string \<Rightarrow> string \<Rightarrow> nat \<Rightarrow> pydict list \<Rightarrow> loop_state \<Rightarrow> 'c
   \<Rightarrow> (py_exception + nat \<times> nat) \<times> 'c" where
  "insert_loop execute segment_ids method ontology_ver idx [] st conn =
     (Inr (inserted st, skipped st), conn)"
| "insert_loop execute segment_ids method ontology_ver idx (ann # anns) st conn =
     (case insert_one execute segment_ids method ontology_ver idx ann st conn of
        (Inl e, conn') \<Rightarrow> (Inl e, conn')
      | (Inr st', conn') \<Rightarrow>
          insert_loop execute segment_ids method ontology_ver (idx + 1) anns st' conn')"

definition insert_occurrences ::
  "'c executor \<Rightarrow> 'c \<Rightarrow> int list \<Rightarrow> pydict list \<Rightarrow> string \<Rightarrow> string
   \<Rightarrow> (py_exception + nat \<times> nat) \<times> 'c" where
  "insert_occurrences execute conn segment_ids annotations method ontology_ver =
     insert_loop execute segment_ids method ontology_ver 0 annotations
       \<lparr>inserted = 0, skipped = 0, first_error = None\<rparr> conn"

text \<open>
  A Postgres connection inside one transaction, as far as the two statements of
  \<open>save_video_analysis\<close> go: the segment upsert on \<open>(video_id, t_start, text)\<close>; the
  occurrence insert with \<open>ON CONFLICT (segment_id, fine_id, span) DO NOTHING\<close> and the
  foreign key of fine_id into the catalog. A failed statement aborts the transaction:
  every later statement fails, and the commit at the end rolls back.
\<close>

record segment_row =
  sg_id :: int
  sg_video_id :: int
  sg_t_start :: rat
  sg_t_end :: rat
  sg_text :: string
  sg_lang :: string

record pg_conn =
  segment_tbl :: "segment_row list"
  segment_id_seq :: int
  occurrence_tbl :: "occurrence list"
  fine_unit_ids :: "int list"
  tx_aborted :: bool

definition same_occurrence_key :: "occurrence \<Rightarrow> occurrence \<Rightarrow> bool" where
  "same_occurrence_key p r \<longleftrightarrow>
     o_segment_id r = o_segment_id p \<and> o_fine_id r = o_fine_id p \<and>
     map_of (o_evidence r) ''span'' = map_of (o_evidence p) ''span''"

definition pg_execute :: "pg_conn executor" where
  "pg_execute conn p =
     (if tx_aborted conn
      then (Raised (PostgresError ''current transaction is aborted''), conn)
      else case o_fine_id p of
             JInt fid \<Rightarrow>
               if list_ex (same_occurrence_key p) (occurrence_tbl conn)
               then (Status ''INSERT 0 0'', conn)
               else if fid \<notin> set (fine_unit_ids conn)
               then (Raised (ForeignKeyViolationError ''violates foreign key constraint''),
                     conn\<lparr>tx_aborted := True\<rparr>)
               else (Status ''INSERT 0 1'', conn\<lparr>occurrence_tbl := occurrence_tbl conn @ [p]\<rparr>)
           | _ \<Rightarrow> (Raised (OtherException ''invalid input for query argument''), conn))"

definition upsert_segment :: "pg_conn \<Rightarrow> int \<Rightarrow> segment \<Rightarrow> int \<times> pg_conn" where
  "upsert_segment conn video_id seg =
     (let same = (\<lambda>r. sg_video_id r = video_id \<and> sg_t_start r = seg_start seg
                      \<and> sg_text r = seg_text seg)
      in case fetch_one same (segment_tbl conn) of
           Some row \<Rightarrow>
             (sg_id row,
              conn\<lparr>segment_tbl := sql_update same (\<lambda>r. r\<lparr>sg_t_end := seg_end seg\<rparr>) (segment_tbl conn)\<rparr>)
         | None \<Rightarrow>
             (segment_id_seq conn,
              conn\<lparr>segment_tbl := segment_tbl conn @
                      [\<lparr>sg_id = segment_id_seq conn, sg_video_id = video_id,
                        sg_t_start = seg_start seg, sg_t_end = seg_end seg,
                        sg_text = seg_text seg, sg_lang = seg_lang seg\<rparr>],
                    segment_id_seq := segment_id_seq conn + 1\<rparr>))"

fun insert_segments :: "pg_conn \<Rightarrow> int \<Rightarrow> segment list \<Rightarrow> int list \<times> pg_conn" where
  "insert_segments conn video_id [] = ([], conn)"
| "insert_segments conn video_id (seg # segs) =
     (let (segment_id, conn1) = upsert_segment conn video_id seg;
          (segment_ids, conn2) = insert_segments conn1 video_id segs
      in (segment_id # segment_ids, conn2))"

record save_stats =
  segments_inserted :: nat
  occurrences_inserted :: nat
  occurrences_skipped :: nat

text \<open>
  \<open>save_video_analysis\<close>: both inserts in one transaction. An exception leaves the
  \<open>async with\<close> block, the transaction is rolled back and a \<open>PersistenceError\<close> is raised
  (\<open>Inl\<close>); otherwise the transaction is committed and the statistics are returned.
\<close>

definition save_video_analysis ::
  "pg_conn \<Rightarrow> int \<Rightarrow> segment list \<Rightarrow> pydict list \<Rightarrow> string \<Rightarrow> string
   \<Rightarrow> (py_exception + save_stats) \<times> pg_conn" where
  "save_video_analysis conn video_id segments annotations method ontology_ver =
     (let (segment_ids, conn1) = insert_segments conn video_id segments
      in case insert_occurrences pg_execute conn1 segment_ids annotations method ontology_ver of
           (Inl e, conn2) \<Rightarrow> (Inl e, conn)
         | (Inr (occ_inserted, occ_skipped), conn2) \<Rightarrow>
             (Inr \<lparr>segments_inserted = length segment_ids, occurrences_inserted = occ_inserted,
                   occurrences_skipped = occ_skipped\<rparr>,
              if tx_aborted conn2 then conn else conn2))"

text \<open>
  Steps 3 and 4 of \<open>process_message\<close> (\<open>_run_agentic\<close>, \<open>_persist_data\<close>): the orchestrator's
  annotations, method tag and ontology version are handed to \<open>save_video_analysis\<close>.
\<close>

definition run_agentic_and_persist ::
  "cache_service \<Rightarrow> (string option \<Rightarrow> language_model) \<Rightarrow> string \<Rightarrow> pg_conn \<Rightarrow> int
   \<Rightarrow> string option \<Rightarrow> segment list \<Rightarrow> (py_exception + save_stats) \<times> pg_conn" where
  "run_agentic_and_persist vertex lm gemini_model conn video_id video_uri segments =
     (let (annotations, method, ontology_ver) =
            process_video vertex lm gemini_model video_uri segments
      in save_video_analysis conn video_id segments annotations method ontology_ver)"

text \<open>
  Examples: an empty connection whose catalog holds the fine units 23456 and 777; cache
  services that always succeed, fail for the video only, or always fail.
\<close>

definition conn_empty :: pg_conn where
  "conn_empty = \<lparr>segment_tbl = [], segment_id_seq = 10, occurrence_tbl = [],
     fine_unit_ids = [23456, 777], tx_aborted = False\<rparr>"

definition vertex_ok :: cache_service where
  "vertex_ok video_uri segments = Inr ''cachedContents/1''"

definition vertex_text_only :: cache_service where
  "vertex_text_only video_uri segments =
     (case video_uri of Some uri \<Rightarrow> Inl ''Quota exceeded'' | None \<Rightarrow> Inr ''cachedContents/2'')"

definition vertex_down :: cache_service where
  "vertex_down video_uri segments = Inl ''Quota exceeded''"


text \<open>
  Every occurrence row of \<open>conn\<close> is a row of \<open>conn0\<close> or carries the detection method
  \<open>method\<close>.
\<close>

definition tagged :: "pg_conn \<Rightarrow> string \<Rightarrow> pg_conn \<Rightarrow> bool" where
  "tagged conn0 method conn \<longleftrightarrow>
     (\<forall>row \<in> set (occurrence_tbl conn).
        row \<in> set (occurrence_tbl conn0) \<or> o_detection_method row = method)"


section \<open>LM driver: \<open>call_with_tools\<close>\<close>

text \<open>
  A reply of the model is the list of its candidates, each the list of the parts of its
  content; a part carries text or a function call (name and arguments).
\<close>

datatype part = TextPart string | FunctionCallPart string pydict

type_synonym response = "part list list"

type_synonym function_call = "string \<times> pydict"

fun function_call_of :: "part \<Rightarrow> function_call list" where
  "function_call_of (FunctionCallPart name args) = [(name, args)]"
| "function_call_of (TextPart text) = []"

text \<open>\<open>_extract_function_calls\<close>: candidates in order, parts in order.\<close>

definition extract_function_calls :: "response \<Rightarrow> function_call list" where
  "extract_function_calls response =
     concat (map (\<lambda>candidate. concat (map function_call_of candidate)) response)"

text \<open>
  \<open>Part.from_function_response\<close>: the function's name with \<open>{"result": result}\<close>
  (\<open>Inr\<close>) or, when the \<open>try\<close> around the tool call raised, \<open>{"error": str(e)}\<close> (\<open>Inl\<close>).
\<close>

record function_response =
  fr_name :: string
  fr_response :: "string + json"

type_synonym 'h tool_handler = "'h \<Rightarrow> string \<Rightarrow> pydict \<Rightarrow> (string + json) \<times> 'h"

text \<open>
  Python values that can be dict keys (a list or a dict cannot) and values that can be
  sliced with \<open>[:120]\<close> (a string or a list; \<open>None\<close>, a number, a bool and a dict raise).
  The exception texts of this section are paraphrased.
\<close>

fun hashable :: "json \<Rightarrow> bool" where
  "hashable (JArr xs) = False"
| "hashable (JObj d) = False"
| "hashable v = True"

fun sliceable :: "json \<Rightarrow> bool" where
  "sliceable (JStr s) = True"
| "sliceable (JArr xs) = True"
| "sliceable v = False"

fun python_type :: "json \<Rightarrow> string" where
  "python_type JNull = ''NoneType''"
| "python_type (JBool b) = ''bool''"
| "python_type (JInt n) = ''int''"
| "python_type (JFloat f) = ''float''"
| "python_type (JStr s) = ''str''"
| "python_type (JArr xs) = ''list''"
| "python_type (JObj d) = ''dict''"

text \<open>
  Inside the \<open>try\<close> around the tool call, after the handler returned: when the result is
  a dict with \<open>lemma\<close> and \<open>candidates\<close>, each candidate that is a dict with a \<open>fine_id\<close>
  is entered into \<open>fine_id_to_lemma\<close> under that fine_id. \<open>Some\<close> is the exception raised
  by this bookkeeping (candidates that cannot be iterated, a fine_id that cannot be a
  key); the map itself is only read for log lines.
\<close>

fun candidate_error :: "json \<Rightarrow> string option" where
  "candidate_error (JObj cand) =
     (if has_key cand ''fine_id'' \<and> \<not> hashable (item cand ''fine_id'')
      then Some (''unhashable type: '' @ python_type (item cand ''fine_id'')) else None)"
| "candidate_error v = None"

fun first_error_of :: "('a \<Rightarrow> string option) \<Rightarrow> 'a list \<Rightarrow> string option" where
  "first_error_of f [] = None"
| "first_error_of f (x # xs) = (case f x of Some e \<Rightarrow> Some e | None \<Rightarrow> first_error_of f xs)"

fun map_lemmas :: "json \<Rightarrow> string option" where
  "map_lemmas (JObj result) =
     (if has_key result ''lemma'' \<and> has_key result ''candidates''
      then (case item result ''candidates'' of
              JArr cands \<Rightarrow> first_error_of candidate_error cands
            | JStr s \<Rightarrow> None
            | JObj d \<Rightarrow> None
            | v \<Rightarrow> Some (python_type v @ '' object is not iterable''))
      else None)"
| "map_lemmas v = None"

definition call_tool :: "'h tool_handler \<Rightarrow> 'h \<Rightarrow> function_call \<Rightarrow> function_response \<times> 'h" where
  "call_tool tool_handler h fc =
     (case tool_handler h (fst fc) (snd fc) of
        (Inl e, h1) \<Rightarrow> (\<lparr>fr_name = fst fc, fr_response = Inl e\<rparr>, h1)
      | (Inr result, h1) \<Rightarrow>
          (case map_lemmas result of
             Some e \<Rightarrow> (\<lparr>fr_name = fst fc, fr_response = Inl e\<rparr>, h1)
           | None \<Rightarrow> (\<lparr>fr_name = fst fc, fr_response = Inr result\<rparr>, h1)))"

text \<open>The \<open>for idx, fc in enumerate(function_calls)\<close> loop; \<open>'h\<close> is what the handler acts on.\<close>

fun run_tools :: "'h tool_handler \<Rightarrow> 'h \<Rightarrow> function_call list \<Rightarrow> function_response list \<times> 'h" where
  "run_tools tool_handler h [] = ([], h)"
| "run_tools tool_handler h (fc # fcs) =
     (let (function_response, h1) = call_tool tool_handler h fc;
          (function_responses, h2) = run_tools tool_handler h1 fcs
      in (function_response # function_responses, h2))"

text \<open>
  \<open>chat.send_message\<close> takes the prompt or the list of function responses and returns a
  reply or raises; \<open>call_with_tools\<close> turns whatever is raised inside it into a
  \<open>VertexError\<close> with one of three prefixes.
\<close>

datatype message = Prompt string | FunctionResponses "function_response list"

datatype call_exception = DeadlineExceeded string | ResourceExhausted string | AnyException string

type_synonym 'c chat = "'c \<Rightarrow> message \<Rightarrow> (call_exception + response) \<times> 'c"

fun vertex_error :: "call_exception \<Rightarrow> string" where
  "vertex_error (DeadlineExceeded e) = ''Request timeout: '' @ e"
| "vertex_error (ResourceExhausted e) = ''Quota exceeded: '' @ e"
| "vertex_error (AnyException e) = ''Failed to call Gemini: '' @ e"

text \<open>
  \<open>_parse_response\<close>: no candidate is an error; a first candidate without parts is the
  empty annotation list; otherwise the text of the first part is cleaned of Markdown
  fences, cut to its outermost braces and given to \<open>json.loads\<close>. Cleaning and parsing
  are the parameter \<open>loads\<close> (\<open>Inl\<close> when \<open>json.loads\<close> raises); a first part without
  text raises.
\<close>

definition parse_response :: "(string \<Rightarrow> string + json) \<Rightarrow> response \<Rightarrow> call_exception + json" where
  "parse_response loads response =
     (case response of
        [] \<Rightarrow> Inl (AnyException ''Failed to parse response: No candidates in response'')
      | candidate # cs \<Rightarrow>
          (case candidate of
             [] \<Rightarrow> Inr (JObj [(''annotations'', JArr [])])
           | TextPart text # ps \<Rightarrow>
               (case loads text of
                  Inl e \<Rightarrow> Inl (AnyException (''Invalid JSON response: '' @ e))
                | Inr data \<Rightarrow> Inr data)
           | FunctionCallPart name args # ps \<Rightarrow>
               Inl (AnyException ''Failed to parse response: part has no text'')))"

text \<open>
  The log lines between \<open>_parse_response\<close> and \<open>return final_result\<close> in the branch of a
  reply without function calls (inside the outer \<open>try\<close>):
  \<open>len(final_result.get('annotations', []))\<close>, then for every annotation
  \<open>ann.get('fine_id')\<close>, \<open>fine_id_to_lemma.get(fine_id, ...)\<close> and
  \<open>ann.get('rationale', '')[:120]\<close>. \<open>Some\<close> is the exception they raise.
\<close>

fun annotation_log_error :: "json \<Rightarrow> string option" where
  "annotation_log_error (JObj ann) =
     (let fine_id = dict_get ann ''fine_id'' JNull; rationale = dict_get ann ''rationale'' (JStr [])
      in if \<not> hashable fine_id then Some (''unhashable type: '' @ python_type fine_id)
         else if \<not> sliceable rationale
         then Some (python_type rationale @ '' object is not subscriptable'')
         else None)"
| "annotation_log_error v = Some (python_type v @ '' object has no attribute get'')"

fun log_final_result :: "json \<Rightarrow> string option" where
  "log_final_result (JObj final_result) =
     (case dict_get final_result ''annotations'' (JArr []) of
        JArr anns \<Rightarrow> first_error_of annotation_log_error anns
      | JStr s \<Rightarrow> if s = [] then None else Some ''str object has no attribute get''
      | JObj d \<Rightarrow> if d = [] then None else Some ''str object has no attribute get''
      | v \<Rightarrow> Some (''object of type '' @ python_type v @ '' has no len()''))"
| "log_final_result v = Some (python_type v @ '' object has no attribute get'')"

text \<open>The branch of a reply without function calls: parse, log, return.\<close>

definition final_decision :: "(string \<Rightarrow> string + json) \<Rightarrow> response \<Rightarrow> call_exception + json" where
  "final_decision loads response =
     (case parse_response loads response of
        Inl e \<Rightarrow> Inl e
      | Inr final_result \<Rightarrow>
          (case log_final_result final_result of
             Some e \<Rightarrow> Inl (AnyException e)
           | None \<Rightarrow> Inr final_result))"

definition max_iterations :: nat where
  "max_iterations = 10"

text \<open>
  The result of the function-call loop, with a log: one round per iteration that ran
  tools (the reply examined, its function calls, the handler's state before them, the
  responses gathered, the chat's state when they are sent, and what \<open>send_message\<close>
  returned for them), the number of iterations of the \<open>while\<close> loop, and the reply that
  was the last one (\<open>None\<close> when \<open>send_message\<close> raised).
\<close>

record ('c, 'h) round =
  rd_reply :: response
  rd_calls :: "function_call list"
  rd_handler :: 'h
  rd_responses :: "function_response list"
  rd_chat :: 'c
  rd_answer :: "call_exception + response"

record ('c, 'h) call_result =
  outcome :: "call_exception + json"
  rounds :: "('c, 'h) round list"
  iterations :: nat
  parsed_reply :: "response option"
  chat_state :: 'c
  handler_state :: 'h

function fc_loop ::
  "'c chat \<Rightarrow> 'h tool_handler \<Rightarrow> (string \<Rightarrow> string + json) \<Rightarrow> nat \<Rightarrow> response \<Rightarrow> 'c \<Rightarrow> 'h
   \<Rightarrow> ('c, 'h) call_result" where
  "fc_loop send tool_handler loads iteration response c h =
     (if iteration < max_iterations then
        (let function_calls = extract_function_calls response
         in if function_calls = []
            then \<lparr>outcome = final_decision loads response, rounds = [], iterations = 1,
                  parsed_reply = Some response, chat_state = c, handler_state = h\<rparr>
            else
              (let (function_responses, h1) = run_tools tool_handler h function_calls;
                   (answer, c1) = send c (FunctionResponses function_responses);
                   rd = \<lparr>rd_reply = response, rd_calls = function_calls, rd_handler = h,
                         rd_responses = function_responses, rd_chat = c, rd_answer = answer\<rparr>
               in case answer of
                    Inl e \<Rightarrow>
                      \<lparr>outcome = Inl e, rounds = [rd], iterations = 1,
                       parsed_reply = None, chat_state = c1, handler_state = h1\<rparr>
                  | Inr response1 \<Rightarrow>
                      (let r = fc_loop send tool_handler loads (iteration + 1) response1 c1 h1
                       in r\<lparr>rounds := rd # rounds r, iterations := iterations r + 1\<rparr>)))
      else \<lparr>outcome = parse_response loads response, rounds = [], iterations = 0,
            parsed_reply = Some response, chat_state = c, handler_state = h\<rparr>)"
  by pat_completeness auto
termination
  by (relation "measure (\<lambda>(send, tool_handler, loads, iteration, response, c, h).
                           max_iterations - iteration)") auto

text \<open>
  \<open>call_with_tools\<close>: the first \<open>send_message\<close> with the prompt, then the loop; the
  result is the parsed JSON or a \<open>VertexError\<close> message.
\<close>

definition call_with_tools ::
  "'c chat \<Rightarrow> 'h tool_handler \<Rightarrow> (string \<Rightarrow> string + json) \<Rightarrow> string \<Rightarrow> 'c \<Rightarrow> 'h
   \<Rightarrow> ('c, 'h) call_result" where
  "call_with_tools send tool_handler loads prompt c h =
     (case send c (Prompt prompt) of
        (Inl e, c1) \<Rightarrow>
          \<lparr>outcome = Inl e, rounds = [], iterations = 0, parsed_reply = None,
           chat_state = c1, handler_state = h\<rparr>
      | (Inr response, c1) \<Rightarrow> fc_loop send tool_handler loads 0 response c1 h)"

definition call_with_tools_result ::
  "'c chat \<Rightarrow> 'h tool_handler \<Rightarrow> (string \<Rightarrow> string + json) \<Rightarrow> string \<Rightarrow> 'c \<Rightarrow> 'h \<Rightarrow> string + json" where
  "call_with_tools_result send tool_handler loads prompt c h =
     (case outcome (call_with_tools send tool_handler loads prompt c h) of
        Inl e \<Rightarrow> Inl (vertex_error e) | Inr data \<Rightarrow> Inr data)"

text \<open>
  The rounds are the conversation: starting from \<open>response\<close> with the chat in state \<open>c\<close>
  and the handler in state \<open>h\<close>, each round examines the reply at hand, runs the tool
  handler over its function calls in order, sends the gathered responses in one message
  and goes on with the answer; \<open>fin\<close> is the last reply (if any) and the final states.
\<close>

fun conversation ::
  "'c chat \<Rightarrow> 'h tool_handler \<Rightarrow> response \<Rightarrow> 'c \<Rightarrow> 'h \<Rightarrow> ('c, 'h) round list
   \<Rightarrow> response option \<times> 'c \<times> 'h \<Rightarrow> bool" where
  "conversation send tool_handler response c h [] fin = (fin = (Some response, c, h))"
| "conversation send tool_handler response c h (rd # rds) fin =
     (rd_reply rd = response \<and> rd_calls rd = extract_function_calls response \<and>
      rd_calls rd \<noteq> [] \<and> rd_handler rd = h \<and> rd_chat rd = c \<and>
      rd_responses rd = fst (run_tools tool_handler h (rd_calls rd)) \<and>
      rd_answer rd = fst (send c (FunctionResponses (rd_responses rd))) \<and>
      (case rd_answer rd of
         Inl e \<Rightarrow>
           rds = [] \<and>
           fin = (None, snd (send c (FunctionResponses (rd_responses rd))),
                  snd (run_tools tool_handler h (rd_calls rd)))
       | Inr response1 \<Rightarrow>
           conversation send tool_handler response1
             (snd (send c (FunctionResponses (rd_responses rd))))
             (snd (run_tools tool_handler h (rd_calls rd))) rds fin))"

definition loop_ok ::
  "'c chat \<Rightarrow> 'h tool_handler \<Rightarrow> (string \<Rightarrow> string + json) \<Rightarrow> nat \<Rightarrow> response \<Rightarrow> 'c \<Rightarrow> 'h
   \<Rightarrow> ('c, 'h) call_result \<Rightarrow> bool" where
  "loop_ok send th loads iteration response c h r \<longleftrightarrow>
     iteration + iterations r \<le> max_iterations \<and>
     length (rounds r) \<le> iterations r \<and>
     conversation send th response c h (rounds r) (parsed_reply r, chat_state r, handler_state r) \<and>
     (\<forall>rep. parsed_reply r = Some rep \<longrightarrow>
        extract_function_calls rep = [] \<and> length (rounds r) + 1 = iterations r \<and>
          outcome r = final_decision loads rep
        \<or> iteration + iterations r = max_iterations \<and> length (rounds r) = iterations r \<and>
          outcome r = parse_response loads rep) \<and>
     (parsed_reply r = None \<longrightarrow> (\<exists>e. outcome r = Inl e))"

text \<open>
  Examples. A chat whose state is the number of messages received: it asks for one
  lookup per turn (\<open>chat_always_calls\<close>, for ever), or for two lookups and then answers
  with text (\<open>chat_two_calls\<close>), or answers the prompt with the text of a JSON object
  whose second annotation has a null rationale (\<open>chat_null_rationale\<close>; the double quotes
  of the JSON text are left out of the literal). A handler that logs the calls it
  receives, and a stand-in for \<open>json.loads\<close> on the two texts.
\<close>

definition chat_always_calls :: "nat chat" where
  "chat_always_calls n msg =
     (Inr [[FunctionCallPart ''query_fine_units'' [(''lemma'', JStr ''run'')]]], n + 1)"

definition chat_two_calls :: "nat chat" where
  "chat_two_calls n msg =
     (if n = 0
      then (Inr [[FunctionCallPart ''query_fine_units'' [(''lemma'', JStr ''give up'')],
                  FunctionCallPart ''query_fine_units'' [(''lemma'', JStr ''want'')]]], n + 1)
      else (Inr [[TextPart ''{}'']], n + 1))"

definition text_null_rationale :: string where
  "text_null_rationale =
     ''{annotations: [{fine_id: 23456, rationale: stop trying}, {fine_id: 777, rationale: null}]}''"

definition json_null_rationale :: json where
  "json_null_rationale =
     JObj [(''annotations'',
            JArr [JObj [(''fine_id'', JInt 23456), (''rationale'', JStr ''stop trying'')],
                  JObj [(''fine_id'', JInt 777), (''rationale'', JNull)]])]"

definition chat_null_rationale :: "nat chat" where
  "chat_null_rationale n msg = (Inr [[TextPart text_null_rationale]], n + 1)"

definition logging_handler :: "(function_call list) tool_handler" where
  "logging_handler seen name args = (Inr (JObj [(''candidates'', JArr [])]), seen @ [(name, args)])"

definition loads_stub :: "string \<Rightarrow> string + json" where
  "loads_stub text =
     (if text = ''{}'' then Inr (JObj [])
      else if text = text_null_rationale then Inr json_null_rationale
      else Inl ''Expecting value'')"

section \<open>Catalog tool: \<open>query_fine_units\<close> and \<open>create_fine_unit\<close>\<close>

text \<open>
  The table \<open>semantic.fine_unit\<close>, its id sequence, and the two tool functions of
  domain/agentic/mcp_tools.py. \<open>pos\<close> and \<open>external_key\<close> are nullable.
\<close>

record fine_unit_row =
  fu_id :: int
  fu_kind :: string
  fu_label :: string
  fu_lang :: string
  fu_pos :: "string option"
  fu_def :: string
  fu_meta :: pydict
  fu_status :: string
  fu_external_key :: "string option"

record catalog =
  fine_units :: "fine_unit_row list"
  fine_unit_id_seq :: int

definition POS_TO_DB :: "(string \<times> string option) list" where
  "POS_TO_DB = [(''n'', Some ''n''), (''v'', Some ''v''), (''a'', Some ''a''), (''r'', Some ''r''),
     (''prep'', Some ''p''), (''conj'', Some ''c''), (''pron'', Some ''m''), (''det'', Some ''d''),
     (''interj'', Some ''i''), (''N/A'', None)]"

text \<open>\<open>POS_TO_DB.get(pos, pos)\<close>.\<close>

definition pos_to_db :: "string \<Rightarrow> string option" where
  "pos_to_db pos = (case map_of POS_TO_DB pos of Some code \<Rightarrow> code | None \<Rightarrow> Some pos)"

text \<open>SQL \<open>column = $n\<close>: never true when either side is NULL.\<close>

fun sql_eq :: "string option \<Rightarrow> string option \<Rightarrow> bool" where
  "sql_eq (Some a) (Some b) = (a = b)"
| "sql_eq a b = False"

definition json_opt :: "string option \<Rightarrow> json" where
  "json_opt v = (case v of Some s \<Rightarrow> JStr s | None \<Rightarrow> JNull)"

definition word_candidate :: "fine_unit_row \<Rightarrow> pydict" where
  "word_candidate row = [(''fine_id'', JInt (fu_id row)), (''label'', JStr (fu_label row)),
     (''pos'', json_opt (fu_pos row)), (''definition'', JStr (fu_def row))]"

definition phrase_candidate :: "fine_unit_row \<Rightarrow> pydict" where
  "phrase_candidate row = [(''fine_id'', JInt (fu_id row)), (''label'', JStr (fu_label row)),
     (''definition'', JStr (fu_def row))]"

text \<open>
  \<open>_query_word_senses\<close>: the \<open>pos\<close> condition is appended under \<open>if pos:\<close>, then
  \<open>ORDER BY id LIMIT 50\<close>.
\<close>

definition query_word_senses :: "catalog \<Rightarrow> string \<Rightarrow> string option \<Rightarrow> string \<Rightarrow> pydict list" where
  "query_word_senses cat lemma pos lang =
     (let cond = (\<lambda>r. fu_kind r = ''word_sense'' \<and> lower (fu_label r) = lower lemma
                       \<and> fu_lang r = lang \<and> fu_status r = ''active'');
          cond = (case pos of
                    Some p \<Rightarrow> if p \<noteq> [] then (\<lambda>r. cond r \<and> sql_eq (fu_pos r) (pos_to_db p))
                              else cond
                  | None \<Rightarrow> cond);
          rows = take 50 (sort_key fu_id (filter cond (fine_units cat)))
      in map word_candidate rows)"

text \<open>\<open>_query_phrase_senses\<close>: no \<open>pos\<close> parameter, no \<open>ORDER BY\<close>, no \<open>LIMIT\<close>.\<close>

definition query_phrase_senses :: "catalog \<Rightarrow> string \<Rightarrow> string \<Rightarrow> pydict list" where
  "query_phrase_senses cat phrase lang =
     (let rows = filter (\<lambda>r. fu_kind r = ''phrase_sense'' \<and> lower (fu_label r) = lower phrase
                            \<and> fu_lang r = lang \<and> fu_status r = ''active'') (fine_units cat)
      in map phrase_candidate rows)"

record mcp_query_result =
  candidates :: "pydict list"
  found :: bool
  query_params :: "string \<times> string \<times> string option \<times> string"

definition query_fine_units ::
  "catalog \<Rightarrow> string \<Rightarrow> string \<Rightarrow> string option \<Rightarrow> string \<Rightarrow> mcp_query_result" where
  "query_fine_units cat lemma kind pos lang =
     (let cands = (if kind = ''word_sense'' then query_word_senses cat lemma pos lang
                   else if kind = ''phrase_sense'' then query_phrase_senses cat lemma lang
                   else [])
      in \<lparr>candidates = cands, found = (length cands > 0),
          query_params = (lemma, kind, pos, lang)\<rparr>)"

text \<open>
  \<open>create_fine_unit\<close>. \<open>hashlib.md5(...).hexdigest()\<close> is the parameter \<open>md5_hexdigest\<close>,
  \<open>gemini_model\<close> the model name the tool was built with, \<open>now\<close> the ISO timestamp put
  into the row's \<open>meta\<close>.
\<close>

definition external_key_of :: "(string \<Rightarrow> string) \<Rightarrow> string \<Rightarrow> string \<Rightarrow> string \<Rightarrow> string" where
  "external_key_of md5_hexdigest gemini_model lemma definition =
     (let def_hash = take 8 (md5_hexdigest definition)
      in gemini_model @ '':'' @ lemma @ '':def_'' @ def_hash)"

record create_result =
  cr_fine_id :: int
  cr_lemma :: string
  cr_pos :: "string option"
  cr_def :: string
  cr_status :: string
  cr_note :: string

definition create_fine_unit ::
  "(string \<Rightarrow> string) \<Rightarrow> string \<Rightarrow> catalog \<Rightarrow> string \<Rightarrow> string \<Rightarrow> string \<Rightarrow> string \<Rightarrow> string
   \<Rightarrow> string \<Rightarrow> string option \<Rightarrow> create_result \<times> catalog" where
  "create_fine_unit md5_hexdigest gemini_model cat now lemma kind pos definition lang video_uid =
     (let external_key = external_key_of md5_hexdigest gemini_model lemma definition
      in case fetch_one (\<lambda>r. fu_external_key r = Some external_key) (fine_units cat) of
           Some existing \<Rightarrow>
             (\<lparr>cr_fine_id = fu_id existing, cr_lemma = fu_label existing,
               cr_pos = fu_pos existing, cr_def = fu_def existing,
               cr_status = fu_status existing, cr_note = ''Already exists in database''\<rparr>, cat)
         | None \<Rightarrow>
             (let db_pos = pos_to_db pos;
                  meta = [(''source'', JStr gemini_model), (''lemma_name'', JStr lemma),
                          (''pos'', JStr pos), (''definition'', JStr definition),
                          (''created_by'', JStr ''gemini_agentic''),
                          (''created_at_timestamp'', JStr now),
                          (''video_uid'', json_opt video_uid)];
                  row = \<lparr>fu_id = fine_unit_id_seq cat, fu_kind = kind, fu_label = lemma,
                         fu_lang = lang, fu_pos = db_pos, fu_def = definition, fu_meta = meta,
                         fu_status = ''pending'', fu_external_key = Some external_key\<rparr>
              in (\<lparr>cr_fine_id = fu_id row, cr_lemma = fu_label row,
                   cr_pos = (case fu_pos row of Some p \<Rightarrow> if p \<noteq> [] then Some p else Some ''N/A''
                                              | None \<Rightarrow> Some ''N/A''),
                   cr_def = fu_def row, cr_status = ''pending'',
                   cr_note = ''Created by Gemini, pending manual review''\<rparr>,
                  cat\<lparr>fine_units := fine_units cat @ [row],
                      fine_unit_id_seq := fine_unit_id_seq cat + 1\<rparr>)))"

text \<open>
  Examples: a catalog with two senses of the word "run", an inactive one, and the phrase
  "give up" (whose pos is NULL); a stand-in for the digest function.
\<close>

definition mk_unit :: "int \<Rightarrow> string \<Rightarrow> string \<Rightarrow> string option \<Rightarrow> string \<Rightarrow> fine_unit_row" where
  "mk_unit i kind label pos status =
     \<lparr>fu_id = i, fu_kind = kind, fu_label = label, fu_lang = ''en'', fu_pos = pos,
      fu_def = ''a definition'', fu_meta = [], fu_status = status, fu_external_key = None\<rparr>"

definition cat_example :: catalog where
  "cat_example =
     \<lparr>fine_units = [mk_unit 4 ''word_sense'' ''run'' (Some ''n'') ''active'',
                    mk_unit 2 ''word_sense'' ''Run'' (Some ''v'') ''active'',
                    mk_unit 3 ''word_sense'' ''run'' (Some ''v'') ''pending'',
                    mk_unit 5 ''phrase_sense'' ''give up'' None ''active''],
      fine_unit_id_seq = 6\<rparr>"

definition md5_stub :: "string \<Rightarrow> string" where
  "md5_stub s = ''5d41402abc4b2a76b9719d911017c592''"


section \<open>Theorems\<close>

text \<open>
  C10. Every call of \<open>update_video_status\<close> leaves the number of video rows, every row with
  another id and every other table unchanged. On a row with the given id it writes status
  and updated_at, writes hls_path exactly when a non-empty hls_path is supplied and
  structured_transcript_path exactly when a non-empty transcript_path is supplied, and keeps
  id, video_uid and storage_path. With \<open>hls_path = None\<close> the stored hls_path is kept.
\<close>

theorem update_video_status_frame:
  "(let db' = update_video_status db now video_id status hls_path transcript_path in
     length (videos db') = length (videos db) \<and>
     ingest_jobs db' = ingest_jobs db \<and> lark_sent db' = lark_sent db \<and>
     video_id_seq db' = video_id_seq db \<and>
     (\<forall>i < length (videos db).
        let r = videos db ! i; r' = videos db' ! i in
        (v_id r \<noteq> video_id \<longrightarrow> r' = r) \<and>
        (v_id r = video_id \<longrightarrow>
           v_status r' = status \<and> v_updated_at r' = Some now \<and>
           v_hls_path r' = (if truthy hls_path then hls_path else v_hls_path r) \<and>
           v_structured_transcript_path r' =
             (if truthy transcript_path then transcript_path
              else v_structured_transcript_path r) \<and>
           v_id r' = v_id r \<and> v_video_uid r' = v_video_uid r \<and>
           v_storage_path r' = v_storage_path r \<and>
           (hls_path = None \<longrightarrow> v_hls_path r' = v_hls_path r))))"
  unfolding update_video_status_def sql_update_def
  by (simp add: Let_def)

theorem update_video_status_frame_witness:
  "videos (update_video_status db_two_videos 100 7 ''READY'' None (Some ''gs://tr/uid-7/asr.json''))
     = [video_7\<lparr>v_status := ''READY'', v_updated_at := Some 100,
                 v_structured_transcript_path := Some ''gs://tr/uid-7/asr.json''\<rparr>, video_8] \<and>
   v_hls_path (videos (update_video_status db_two_videos 100 7 ''READY'' None
                 (Some ''gs://tr/uid-7/asr.json'')) ! 0) = Some ''gs://hls/uid-7/manifest.m3u8''"
  using update_video_status_frame [of db_two_videos 100 7 "''READY''" None "Some ''gs://tr/uid-7/asr.json''"]
  by (simp add: db_two_videos_def video_7_def video_8_def update_video_status_def sql_update_def)

lemma sql_update_length: "length (sql_update c f rows) = length rows"
  by (simp add: sql_update_def)

lemma sql_update_nth: "i < length rows \<Longrightarrow>
  sql_update c f rows ! i = (if c (rows ! i) then f (rows ! i) else rows ! i)"
  by (simp add: sql_update_def)

text \<open>
  C1 (as amended). The idempotency check on the row of \<open>(object_key, etag)\<close>: a \<open>done\<close> row
  stops with "Task already completed" and changes nothing; a \<open>processing\<close> row started
  less than 3600 s ago stops with "Task already processing" and changes nothing; a
  \<open>processing\<close> row started 3600 s ago or earlier is reset to \<open>queued\<close> with started_at
  cleared and retry_count incremented by 1, and processing proceeds with the job read
  before the reset; an \<open>error\<close> or \<open>queued\<close> row is returned as the job and the database is
  left as it is (nothing is inserted); with no row, a row with status \<open>processing\<close> and
  started_at = now is inserted and processing proceeds.
\<close>

theorem check_idempotency_cases:
  "(let (res, db') = check_idempotency raw_bucket db now message in
    case fetch_one (job_key message) (ingest_jobs db) of
      Some row \<Rightarrow>
        (j_status row = ''done'' \<longrightarrow>
           res = Inl (mk_IdempotencyError ''Task already completed'') \<and> db' = db) \<and>
        (j_status row = ''processing'' \<longrightarrow>
           (\<forall>t. j_started_at row = Some t \<longrightarrow>
              (now - t < 3600 * 1000000 \<longrightarrow>
                 res = Inl (mk_IdempotencyError ''Task already processing'') \<and> db' = db) \<and>
              (now - t \<ge> 3600 * 1000000 \<longrightarrow>
                 res = Inr (job_of_row row) \<and>
                 db' = db\<lparr>ingest_jobs :=
                         map (\<lambda>r. if job_key message r
                                  then r\<lparr>j_status := ''queued'', j_started_at := None,
                                         j_retry_count := j_retry_count r + 1\<rparr>
                                  else r) (ingest_jobs db)\<rparr>))) \<and>
        (j_status row = ''error'' \<or> j_status row = ''queued'' \<longrightarrow>
           res = Inr (job_of_row row) \<and> db' = db)
    | None \<Rightarrow>
        (\<exists>video_id.
           res = Inr \<lparr>job_object_key = m_object_name message, job_etag = m_etag message,
                     job_video_uid = m_video_uid message, job_video_id = video_id,
                     job_status = ''processing'', job_retry_count = 0\<rparr> \<and>
           ingest_jobs db' = ingest_jobs db @
             [\<lparr>j_object_key = m_object_name message, j_etag = m_etag message,
               j_video_uid = m_video_uid message, j_video_id = video_id,
               j_status = ''processing'', j_started_at = Some now,
               j_finished_at = None, j_retry_count = 0, j_err = None\<rparr>] \<and>
           lark_sent db' = lark_sent db))"
  unfolding check_idempotency_def
  by (auto simp: Let_def elapsed_below_timeout_def PROCESSING_TIMEOUT_SECONDS_def
        sql_update_def reset_to_queued_def get_or_create_video_def
        split: option.splits prod.splits)


theorem check_idempotency_cases_witness:
  "fst (check_idempotency ''raw'' (db_job ''processing'' (Some 0)) 3600000000 msg_v)
     = Inr (job_of_row (job_v ''processing'' (Some 0))) \<and>
   ingest_jobs (snd (check_idempotency ''raw'' (db_job ''processing'' (Some 0)) 3600000000 msg_v))
     = [(job_v ''queued'' None)\<lparr>j_retry_count := 1\<rparr>] \<and>
   check_idempotency ''raw'' (db_job ''processing'' (Some 1)) 3600000000 msg_v
     = (Inl (mk_IdempotencyError ''Task already processing''), db_job ''processing'' (Some 1)) \<and>
   check_idempotency ''raw'' (db_job ''done'' None) 3600000000 msg_v
     = (Inl (mk_IdempotencyError ''Task already completed''), db_job ''done'' None) \<and>
   ingest_jobs (snd (check_idempotency ''raw'' db_no_job 50 msg_v))
     = [(job_v ''processing'' (Some 50))]"
  using check_idempotency_cases [of "''raw''" "db_job ''processing'' (Some 0)" 3600000000 msg_v]
  by (simp add: check_idempotency_def fetch_one_def job_key_def db_job_def job_v_def msg_v_def
        elapsed_below_timeout_def PROCESSING_TIMEOUT_SECONDS_def sql_update_def reset_to_queued_def
        job_of_row_def db_no_job_def get_or_create_video_def Let_def)

theorem check_idempotency_error_row_counterexample:
  "check_idempotency ''raw'' (db_job ''error'' (Some 0)) 3600000000 msg_v
     = (Inr (job_of_row (job_v ''error'' (Some 0))), db_job ''error'' (Some 0)) \<and>
   ingest_jobs (db_job ''error'' (Some 0)) = [job_v ''error'' (Some 0)] \<and>
   j_status (job_v ''error'' (Some 0)) \<noteq> ''processing'' \<and>
   j_started_at (job_v ''error'' (Some 0)) \<noteq> Some 3600000000"
  by (simp add: check_idempotency_def fetch_one_def job_key_def db_job_def job_v_def msg_v_def)

text \<open>
  What \<open>_handle_error\<close> does, as written: it sets status \<open>error\<close>, the error message and
  finished_at = now on the ingest jobs of the video_uid whose status is \<open>processing\<close>
  and on no other job row; it sets the status of the video rows of the video_uid to
  \<open>ERROR\<close>; it sends one error card with the class name and the message. A
  \<open>WorkflowError\<close> raised by the steps after the idempotency check reaches the handler and
  is re-raised.
\<close>

lemma handle_error_effect:
  "(let db' = handle_error db now video_uid error in
     length (ingest_jobs db') = length (ingest_jobs db) \<and>
     (\<forall>i < length (ingest_jobs db).
        let r = ingest_jobs db ! i; r' = ingest_jobs db' ! i in
        (j_video_uid r = video_uid \<and> j_status r = ''processing'' \<longrightarrow>
           r' = r\<lparr>j_status := ''error'', j_err := Some (e_message error),
                  j_finished_at := Some now\<rparr>) \<and>
        (j_video_uid r \<noteq> video_uid \<or> j_status r \<noteq> ''processing'' \<longrightarrow> r' = r)) \<and>
     length (videos db') = length (videos db) \<and>
     (\<forall>i < length (videos db).
        let v = videos db ! i; v' = videos db' ! i in
        (v_video_uid v = video_uid \<longrightarrow> v' = v\<lparr>v_status := ''ERROR''\<rparr>) \<and>
        (v_video_uid v \<noteq> video_uid \<longrightarrow> v' = v)) \<and>
     lark_sent db' = lark_sent db @
       [\<lparr>n_error_type = class_name (e_class error), n_error_message = e_message error,
         n_context = [(''video_uid'', video_uid),
                      (''retryable'', py_str_bool (e_retryable error))]\<rparr>]) \<and>
   (\<forall>job db0 db1 e.
      check_idempotency raw_bucket db_in now message = (Inr job, db0) \<and>
      steps job db0 = (Inl (Inl e), db1) \<longrightarrow>
      process_message raw_bucket steps db_in now message
        = (Inl (Inl e), handle_error db1 now (m_video_uid message) e))"
  by (auto simp: handle_error_def process_message_def Let_def sql_update_def)

lemma handle_error_effect_example:
  "process_message ''raw'' asr_fails (db_job ''error'' None) 50 msg_v
     = (Inl (Inl (mk_ASRError ''ASR failed after 3 retries'')),
        handle_error (db_job ''error'' None) 50 ''uid-7'' (mk_ASRError ''ASR failed after 3 retries'')) \<and>
   ingest_jobs (handle_error (db_job ''processing'' (Some 0)) 50 ''uid-7''
                  (mk_ASRError ''ASR failed after 3 retries''))
     = [(job_v ''error'' (Some 0))\<lparr>j_err := Some ''ASR failed after 3 retries'',
                                    j_finished_at := Some 50\<rparr>] \<and>
   map v_status (videos (handle_error (db_job ''processing'' (Some 0)) 50 ''uid-7''
                  (mk_ASRError ''ASR failed after 3 retries''))) = [''ERROR'']"
  using handle_error_effect [of "db_job ''processing'' (Some 0)" 50 "''uid-7''"
      "mk_ASRError ''ASR failed after 3 retries''" "''raw''" "db_job ''error'' None" msg_v asr_fails]
  by (simp add: handle_error_def process_message_def check_idempotency_def fetch_one_def
        job_key_def db_job_def job_v_def msg_v_def asr_fails_def sql_update_def Let_def
        video_7_def mk_ASRError_def job_of_row_def)

text \<open>
  C9 (the code at the failing input). A delivery finds its job \<open>processing\<close> and started
  an hour ago: the idempotency check resets the row to \<open>queued\<close> and processing proceeds.
  ASR then fails after its retries. The handler's job update selects
  \<open>video_uid = $2 AND status = 'processing'\<close>, so the job stays \<open>queued\<close> with no error
  message and no finished_at, while the video is set to \<open>ERROR\<close> and the card is sent.
  Likewise a job found in status \<open>error\<close> and retried keeps its row as it was. The
  success path \<open>_finalize\<close> on the same reset job selects the row by its key and sets it
  to \<open>done\<close>.
\<close>

theorem process_message_retried_job_not_marked:
  "fst (process_message ''raw'' asr_fails (db_job ''processing'' (Some 0)) 3600000000 msg_v)
     = Inl (Inl (mk_ASRError ''ASR failed after 3 retries'')) \<and>
   ingest_jobs (snd (process_message ''raw'' asr_fails (db_job ''processing'' (Some 0))
                       3600000000 msg_v))
     = [(job_v ''queued'' None)\<lparr>j_retry_count := 1\<rparr>] \<and>
   map v_status (videos (snd (process_message ''raw'' asr_fails (db_job ''processing'' (Some 0))
                                3600000000 msg_v))) = [''ERROR''] \<and>
   length (lark_sent (snd (process_message ''raw'' asr_fails (db_job ''processing'' (Some 0))
                             3600000000 msg_v))) = 1 \<and>
   ingest_jobs (snd (process_message ''raw'' asr_fails (db_job ''error'' None) 50 msg_v))
     = [job_v ''error'' None] \<and>
   ingest_jobs (finalize
       (snd (check_idempotency ''raw'' (db_job ''processing'' (Some 0)) 3600000000 msg_v))
       3600000001 (job_of_row (job_v ''processing'' (Some 0))) None ''gs://tr/uid-7/asr.json'')
     = [(job_v ''done'' None)\<lparr>j_retry_count := 1, j_finished_at := Some 3600000001\<rparr>]"
  by (simp add: handle_error_def process_message_def check_idempotency_def fetch_one_def
        job_key_def db_job_def job_v_def msg_v_def asr_fails_def sql_update_def Let_def
        video_7_def mk_ASRError_def job_of_row_def elapsed_below_timeout_def
        PROCESSING_TIMEOUT_SECONDS_def reset_to_queued_def finalize_def update_video_status_def)

lemma has_key_iff: "has_key d k \<longleftrightarrow> (\<exists>v. map_of d k = Some v)"
  by (simp add: has_key_def)

lemma item_Some: "map_of d k = Some v \<Longrightarrow> item d k = v"
  by (simp add: item_def dict_get_def)

lemma validate_fields_iff:
  "validate_fields ann segment \<longleftrightarrow>
     (\<exists>si fid sp st en vc tc r.
        map_of ann ''segment_index'' = Some si \<and> isinstance_int si \<and>
        map_of ann ''fine_id'' = Some fid \<and> isinstance_int fid \<and>
        map_of ann ''span'' = Some (JObj sp) \<and>
        map_of sp ''start'' = Some st \<and> map_of sp ''end'' = Some en \<and>
        isinstance_int st \<and> isinstance_int en \<and>
        0 \<le> int_value st \<and> int_value st < int_value en \<and>
        int_value en \<le> int (length (seg_text segment)) \<and>
        map_of ann ''visual_comprehensibility'' = Some vc \<and>
        isinstance_int_float vc \<and> in_unit_interval vc \<and>
        map_of ann ''textual_comprehensibility'' = Some tc \<and>
        isinstance_int_float tc \<and> in_unit_interval tc \<and>
        map_of ann ''rationale'' = Some (JStr r) \<and> r \<noteq> [])"
  (is "?L \<longleftrightarrow> ?R")
proof
  assume ?L
  then show ?R
    unfolding validate_fields_def required_def
    by (auto simp: has_key_iff item_Some Let_def split: if_splits json.splits)
next
  assume ?R
  then show ?L
    unfolding validate_fields_def required_def
    by (auto simp: has_key_iff item_Some Let_def)
qed


text \<open>
  C6 (as amended). An annotator's \<open>validate_annotation\<close> accepts an annotation for a segment
  if and only if: the six required fields are present; segment_index is an integer (it is
  not compared with the index of the segment being processed); fine_id is an integer; span
  is an object with integer start and end such that 0 \<le> start < end \<le> length of the
  segment's text; both comprehensibility scores are numbers in [0,1] (NaN and the infinities
  are rejected); rationale is a non-empty string. Integer is Python's \<open>isinstance(x, int)\<close>,
  which holds of booleans. \<open>_process_segment\<close> returns the accepted annotations in the
  reply's order and logs a warning for each rejected one.
\<close>

theorem validate_annotation_iff:
  "(validate_annotation annotator ann segment \<longleftrightarrow>
     (\<exists>si fid sp st en vc tc r.
        map_of ann ''segment_index'' = Some si \<and> isinstance_int si \<and>
        map_of ann ''fine_id'' = Some fid \<and> isinstance_int fid \<and>
        map_of ann ''span'' = Some (JObj sp) \<and>
        map_of sp ''start'' = Some st \<and> map_of sp ''end'' = Some en \<and>
        isinstance_int st \<and> isinstance_int en \<and>
        0 \<le> int_value st \<and> int_value st < int_value en \<and>
        int_value en \<le> int (length (seg_text segment)) \<and>
        map_of ann ''visual_comprehensibility'' = Some vc \<and>
        isinstance_int_float vc \<and> in_unit_interval vc \<and>
        map_of ann ''textual_comprehensibility'' = Some tc \<and>
        isinstance_int_float tc \<and> in_unit_interval tc \<and>
        map_of ann ''rationale'' = Some (JStr r) \<and> r \<noteq> [])) \<and>
   (\<forall>lm i anns. lm i annotator = Reply (Some anns) \<longrightarrow>
      (\<exists>out. process_segment lm segment i annotator = Inr out \<and>
         valid_anns out = filter (\<lambda>a. validate_annotation annotator a segment) anns \<and>
         warned out = filter (\<lambda>a. \<not> validate_annotation annotator a segment) anns \<and>
         cards out = []))"
proof -
  have "validate_annotation annotator ann segment = validate_fields ann segment"
    by (cases annotator) simp_all
  then show ?thesis
    by (simp add: validate_fields_iff process_segment_def)
qed

theorem validate_annotation_iff_witness:
  "validate_annotation PhraseAnnotator ann_give_up seg_give_up \<and>
   \<not> validate_annotation PhraseAnnotator ann_no_rationale seg_give_up \<and>
   process_segment (lm_fixed [ann_give_up, ann_no_rationale] []) seg_give_up 0 PhraseAnnotator
     = Inr \<lparr>valid_anns = [ann_give_up], warned = [ann_no_rationale], cards = []\<rparr>"
proof -
  have a: "map_of ann_give_up ''rationale'' = Some (JStr ''stop trying'')"
    and b: "map_of ann_no_rationale ''rationale'' = Some (JStr [])"
    by (simp_all add: ann_give_up_def ann_no_rationale_def mk_ann_def)
  have "validate_annotation PhraseAnnotator ann_give_up seg_give_up"
    unfolding validate_annotation_iff [THEN conjunct1]
    by (simp add: ann_give_up_def mk_ann_def seg_give_up_def)
  moreover have "\<not> validate_annotation PhraseAnnotator ann_no_rationale seg_give_up"
    unfolding validate_annotation_iff [THEN conjunct1] using b by simp
  moreover have "lm_fixed [ann_give_up, ann_no_rationale] [] 0 PhraseAnnotator
      = Reply (Some [ann_give_up, ann_no_rationale])"
    by (simp add: lm_fixed_def)
  ultimately show ?thesis
    using validate_annotation_iff [THEN conjunct2, rule_format,
      of "lm_fixed [ann_give_up, ann_no_rationale] []" 0 PhraseAnnotator _ seg_give_up]
    by auto
qed

theorem validate_annotation_index_counterexample:
  "validate_annotation WordAnnotator ann_wrong_index seg_give_up \<and>
   map_of ann_wrong_index ''segment_index'' = Some (JInt 5) \<and>
   process_segment (lm_fixed [] [ann_wrong_index]) seg_give_up 0 WordAnnotator
     = Inr \<lparr>valid_anns = [ann_wrong_index], warned = [], cards = []\<rparr>"
  by (simp add: validate_fields_def required_def has_key_def item_def dict_get_def
        ann_wrong_index_def mk_ann_def seg_give_up_def process_segment_def lm_fixed_def)






lemma tagged_pg_execute:
  "tagged conn0 method conn \<Longrightarrow> o_detection_method p = method
   \<Longrightarrow> tagged conn0 method (snd (pg_execute conn p))"
  by (auto simp: tagged_def pg_execute_def split: json.splits)

lemma tagged_insert_one:
  "tagged conn0 method conn
   \<Longrightarrow> tagged conn0 method (snd (insert_one pg_execute segment_ids method ver idx ann st conn))"
proof -
  assume t: "tagged conn0 method conn"
  have "tagged conn0 method c"
    if "pg_execute conn (build_occurrence sid fid ann method ver) = (out, c)" for sid fid out c
    using tagged_pg_execute [OF t, of "build_occurrence sid fid ann method ver"] that
    by (simp add: build_occurrence_def)
  then show ?thesis
    using t
    by (auto simp: insert_one_def split: index_result.splits option.splits prod.splits
        exec_outcome.splits)
qed

lemma tagged_insert_loop:
  "tagged conn0 method conn
   \<Longrightarrow> tagged conn0 method (snd (insert_loop pg_execute segment_ids method ver idx anns st conn))"
proof (induction anns arbitrary: idx st conn)
  case Nil
  then show ?case by simp
next
  case (Cons ann anns)
  have "tagged conn0 method (snd (insert_one pg_execute segment_ids method ver idx ann st conn))"
    by (rule tagged_insert_one [OF Cons.prems])
  then show ?case
    using Cons.IH
    by (auto split: prod.splits sum.splits)
qed

lemma occurrence_tbl_upsert_segment:
  "occurrence_tbl (snd (upsert_segment conn video_id seg)) = occurrence_tbl conn"
  by (simp add: upsert_segment_def Let_def split: option.splits)

lemma occurrence_tbl_insert_segments:
  "occurrence_tbl (snd (insert_segments conn video_id segs)) = occurrence_tbl conn"
proof (induction segs arbitrary: conn)
  case Nil
  then show ?case by simp
next
  case (Cons seg segs)
  obtain sid conn1 where u: "upsert_segment conn video_id seg = (sid, conn1)"
    by (cases "upsert_segment conn video_id seg")
  have "occurrence_tbl conn1 = occurrence_tbl conn"
    using occurrence_tbl_upsert_segment [of conn video_id seg] u by simp
  with Cons.IH [of conn1] show ?case
    by (auto simp: u split: prod.splits)
qed

lemma tagged_refl: "occurrence_tbl conn = occurrence_tbl conn0 \<Longrightarrow> tagged conn0 method conn"
  by (simp add: tagged_def)

lemma tagged_save:
  "tagged conn method (snd (save_video_analysis conn video_id segments annotations method ver))"
proof -
  obtain ids conn1 where s: "insert_segments conn video_id segments = (ids, conn1)"
    by (cases "insert_segments conn video_id segments")
  have "occurrence_tbl conn1 = occurrence_tbl conn"
    using occurrence_tbl_insert_segments [of conn video_id segments] s by simp
  then have "tagged conn method conn1" by (rule tagged_refl)
  then have "tagged conn method (snd (insert_occurrences pg_execute conn1 ids annotations method ver))"
    unfolding insert_occurrences_def by (rule tagged_insert_loop)
  moreover have "tagged conn method conn" by (simp add: tagged_def)
  ultimately show ?thesis
    by (auto simp: save_video_analysis_def s split: prod.splits sum.splits)
qed


text \<open>
  C3 (as amended). Cache creation is attempted in the order multimodal (only when a video
  URI is given), text-only, no cache, and the first level that succeeds determines the
  method tag: multimodal cache \<open>gemini_video\<close>, text-only cache \<open>gemini_text\<close>, no cache
  \<open>gemini_nocache\<close>. Every occurrence row that persisting the video's annotations adds
  carries this tag as its detection method.
\<close>

theorem cache_fallback_method:
  "(let (cached_content, method, requests) =
          create_cached_content_with_fallback vertex video_uri segments;
        video_ok = (truthy video_uri \<and> (\<exists>c. vertex video_uri segments = Inr c));
        text_ok = (\<exists>c. vertex None segments = Inr c)
    in method \<in> {''gemini_video'', ''gemini_text'', ''gemini_nocache''} \<and>
       (method = ''gemini_video'' \<longleftrightarrow> video_ok) \<and>
       (method = ''gemini_text'' \<longleftrightarrow> \<not> video_ok \<and> text_ok) \<and>
       (method = ''gemini_nocache'' \<longleftrightarrow> \<not> video_ok \<and> \<not> text_ok) \<and>
       (cached_content = None \<longleftrightarrow> method = ''gemini_nocache'') \<and>
       requests = (if truthy video_uri then [video_uri] else []) @
                  (if video_ok then [] else [None]) \<and>
       (\<forall>lm gemini_model conn video_id.
          \<forall>row \<in> set (occurrence_tbl (snd (run_agentic_and_persist vertex lm gemini_model conn
                                               video_id video_uri segments))).
            row \<in> set (occurrence_tbl conn) \<or> o_detection_method row = method))"
proof -
  obtain cc tag reqs where
    f: "create_cached_content_with_fallback vertex video_uri segments = (cc, tag, reqs)"
    by (cases "create_cached_content_with_fallback vertex video_uri segments") auto
  have persist: "tagged conn tag
      (snd (run_agentic_and_persist vertex lm gemini_model conn video_id video_uri segments))"
    for lm gemini_model conn video_id
    unfolding run_agentic_and_persist_def process_video_def
    by (simp add: f Let_def tagged_save)
  have tags: "tag \<in> {''gemini_video'', ''gemini_text'', ''gemini_nocache''} \<and>
       (tag = ''gemini_video'' \<longleftrightarrow> truthy video_uri \<and> (\<exists>c. vertex video_uri segments = Inr c)) \<and>
       (tag = ''gemini_text'' \<longleftrightarrow>
          \<not> (truthy video_uri \<and> (\<exists>c. vertex video_uri segments = Inr c)) \<and>
          (\<exists>c. vertex None segments = Inr c)) \<and>
       (tag = ''gemini_nocache'' \<longleftrightarrow>
          \<not> (truthy video_uri \<and> (\<exists>c. vertex video_uri segments = Inr c)) \<and>
          \<not> (\<exists>c. vertex None segments = Inr c)) \<and>
       (cc = None \<longleftrightarrow> tag = ''gemini_nocache'') \<and>
       reqs = (if truthy video_uri then [video_uri] else []) @
                  (if truthy video_uri \<and> (\<exists>c. vertex video_uri segments = Inr c)
                   then [] else [None])"
    using f
    unfolding create_cached_content_with_fallback_def create_cached_content_def
    by (auto simp: Let_def split: if_splits sum.splits)
  have rows: "\<forall>lm gemini_model conn video_id.
      \<forall>row \<in> set (occurrence_tbl (snd (run_agentic_and_persist vertex lm gemini_model conn
                                           video_id video_uri segments))).
        row \<in> set (occurrence_tbl conn) \<or> o_detection_method row = tag"
    using persist unfolding tagged_def by blast
  show ?thesis
    unfolding f Let_def prod.case
    by (intro conjI tags [THEN conjunct1] tags [THEN conjunct2, THEN conjunct1]
        tags [THEN conjunct2, THEN conjunct2, THEN conjunct1]
        tags [THEN conjunct2, THEN conjunct2, THEN conjunct2, THEN conjunct1]
        tags [THEN conjunct2, THEN conjunct2, THEN conjunct2, THEN conjunct2, THEN conjunct1]
        tags [THEN conjunct2, THEN conjunct2, THEN conjunct2, THEN conjunct2, THEN conjunct2]
        rows)
qed


lemmas eval_defs =
  validate_fields_def required_def has_key_def item_def dict_get_def
  ann_give_up_def ann_no_rationale_def ann_want_def ann_wrong_index_def mk_ann_def seg_give_up_def
  process_segment_def process_one_def lm_fixed_def process_segments_concurrent_def
  create_cached_content_with_fallback_def create_cached_content_def process_video_def
  run_agentic_and_persist_def save_video_analysis_def insert_occurrences_def insert_one_def
  upsert_segment_def fetch_one_def sql_update_def pg_execute_def build_occurrence_def
  index_int_def py_index_def same_occurrence_key_def set_first_def skip_def
  conn_empty_def vertex_ok_def vertex_text_only_def vertex_down_def Let_def

lemma fallback_example:
  "create_cached_content_with_fallback vertex_text_only (Some ''gs://raw/v.mp4'') [seg_give_up]
     = (Some ''cachedContents/2'', ''gemini_text'', [Some ''gs://raw/v.mp4'', None])"
  by (simp add: eval_defs)

lemma persist_example:
  "occurrence_tbl (snd (run_agentic_and_persist vertex_text_only (\<lambda>c. lm_fixed [ann_give_up] [])
       ''gemini-2.0'' conn_empty 7 (Some ''gs://raw/v.mp4'') [seg_give_up]))
     = [build_occurrence 10 (JInt 23456) ann_give_up ''gemini_text'' ''gemini-2.0'']"
  by (simp add: eval_defs)

theorem cache_fallback_method_witness:
  "create_cached_content_with_fallback vertex_text_only (Some ''gs://raw/v.mp4'') [seg_give_up]
     = (Some ''cachedContents/2'', ''gemini_text'', [Some ''gs://raw/v.mp4'', None]) \<and>
   map o_detection_method
     (occurrence_tbl (snd (run_agentic_and_persist vertex_text_only (\<lambda>c. lm_fixed [ann_give_up] [])
        ''gemini-2.0'' conn_empty 7 (Some ''gs://raw/v.mp4'') [seg_give_up])))
     = [''gemini_text'']"
proof -
  let ?row = "build_occurrence 10 (JInt 23456) ann_give_up ''gemini_text'' ''gemini-2.0''"
  have "?row \<in> set (occurrence_tbl conn_empty) \<or> o_detection_method ?row = ''gemini_text''"
    using cache_fallback_method [of vertex_text_only "Some ''gs://raw/v.mp4''" "[seg_give_up]"]
    unfolding fallback_example Let_def prod.case
    by (elim conjE allE [of _ "\<lambda>c. lm_fixed [ann_give_up] []"] allE [of _ "''gemini-2.0''"]
          allE [of _ conn_empty] allE [of _ 7])
       (simp add: persist_example)
  moreover have "occurrence_tbl conn_empty = []"
    by (simp add: conn_empty_def)
  ultimately have "o_detection_method ?row = ''gemini_text''"
    by simp
  then show ?thesis
    by (simp add: fallback_example persist_example)
qed

theorem cache_fallback_method_counterexample:
  "fst (snd (create_cached_content_with_fallback vertex_ok (Some ''gs://raw/v.mp4'') [seg_give_up]))
     = ''gemini_video'' \<and>
   ''gemini_video'' \<notin> {''model_video'', ''model_text'', ''model_nocache''} \<and>
   snd (snd (create_cached_content_with_fallback vertex_ok None [seg_give_up])) = [None]"
  by (simp add: eval_defs)

text \<open>
  One annotation in \<open>_insert_occurrences\<close>: a missing, null or too large segment_index
  is skipped without a statement; a returned status counts as inserted only when it
  contains \<open>INSERT 0 1\<close>; a foreign-key violation is skipped and counted; another
  Postgres error is raised when it is the first exception of the loop and skipped after
  an earlier one.
\<close>

lemma insert_one_missing_or_high_index:
  assumes "map_of ann ''segment_index'' = None \<or> map_of ann ''segment_index'' = Some JNull \<or>
           (\<exists>n. map_of ann ''segment_index'' = Some (JInt n) \<and> n \<ge> int (length segment_ids))"
  shows "insert_one execute segment_ids tag ver idx ann st conn
           = (Inr (st\<lparr>skipped := skipped st + 1\<rparr>), conn)"
  using assms
  by (auto simp: insert_one_def dict_get_def index_int_def skip_def)

lemma handle_foreign_key:
  "handle_exception idx ann (ForeignKeyViolationError msg) st
     = Inr ((set_first (ErrorDetail idx (dict_get ann ''segment_index'' JNull)
                          (dict_get ann ''fine_id'' JNull) msg) st)
            \<lparr>skipped := skipped st + 1\<rparr>)"
  by (simp add: skip_def set_first_def)

lemma handle_postgres_error:
  "handle_exception idx ann (PostgresError msg) st
     = (if first_error st = None then Inl (PostgresError msg)
        else if first_error st = Some (ErrorDetail idx (dict_get ann ''segment_index'' JNull)
                                         (dict_get ann ''fine_id'' JNull) msg)
        then Inl (PostgresError msg)
        else Inr (st\<lparr>skipped := skipped st + 1\<rparr>))"
  by (simp add: skip_def set_first_def Let_def)

lemma insert_one_counts_status:
  assumes "lookup_segment_id segment_ids (dict_get ann ''segment_index'' JNull) = Indexed sid"
    and "map_of ann ''fine_id'' = Some fid"
    and "execute conn (build_occurrence sid fid ann tag ver) = (Status result, conn')"
  shows "insert_one execute segment_ids tag ver idx ann st conn
           = (Inr (if contains ''INSERT 0 1'' result then st\<lparr>inserted := inserted st + 1\<rparr> else st),
              conn')"
  using assms by (simp add: insert_one_def)

lemma contains_examples:
  "contains ''INSERT 0 1'' ''INSERT 0 1'' \<and> \<not> contains ''INSERT 0 1'' ''INSERT 0 0''"
  by simp

text \<open>
  C2 (the code at the failing input). With two segment ids and one annotation whose
  segment_index is -1, \<open>_insert_occurrences\<close> does not skip the annotation: the index test
  \<open>segment_index >= len(segment_ids)\<close> has no lower bound, \<open>segment_ids[-1]\<close> is the last
  segment id, and one occurrence is inserted on that segment (inserted = 1, skipped = 0).
\<close>

theorem insert_occurrences_negative_index:
  "insert_occurrences pg_execute conn_empty [10, 11]
     [mk_ann (JInt (- 1)) 23456 10 17 ''stop trying''] ''gemini_text'' ''gemini-2.0''
   = (Inr (1, 0),
      conn_empty\<lparr>occurrence_tbl :=
        [build_occurrence 11 (JInt 23456) (mk_ann (JInt (- 1)) 23456 10 17 ''stop trying'')
           ''gemini_text'' ''gemini-2.0'']\<rparr>)"
  by (simp add: eval_defs)

declare fc_loop.simps [simp del]

lemma call_tool_name: "fr_name (fst (call_tool th h fc)) = fst fc"
  by (simp add: call_tool_def split: prod.splits sum.splits option.splits)

lemma run_tools_Cons:
  "run_tools th h (fc # fcs) =
     (fst (call_tool th h fc) # fst (run_tools th (snd (call_tool th h fc)) fcs),
      snd (run_tools th (snd (call_tool th h fc)) fcs))"
  by (simp add: split_def Let_def)

lemma run_tools_names: "map fr_name (fst (run_tools th h calls)) = map fst calls"
  by (induction calls arbitrary: h)
     (simp_all add: run_tools_Cons call_tool_name del: run_tools.simps(2))

lemma run_tools_nth:
  "i < length calls \<Longrightarrow>
   fst (run_tools th h calls) ! i
     = fst (call_tool th (snd (run_tools th h (take i calls))) (calls ! i))"
proof (induction calls arbitrary: h i)
  case Nil
  then show ?case by simp
next
  case (Cons fc fcs)
  show ?case
  proof (cases i)
    case 0
    then show ?thesis by (simp add: run_tools_Cons del: run_tools.simps(2))
  next
    case (Suc j)
    with Cons.prems have "j < length fcs" by simp
    from Cons.IH [OF this] show ?thesis
      using Suc by (simp add: run_tools_Cons del: run_tools.simps(2))
  qed
qed

lemma fc_loop_ok:
  "iteration \<le> max_iterations \<Longrightarrow>
   loop_ok send th loads iteration response c h (fc_loop send th loads iteration response c h)"
proof (induction send th loads iteration response c h rule: fc_loop.induct)
  case (1 send th loads iteration response c h)
  show ?case
  proof (cases "iteration < max_iterations")
    case False
    with "1.prems" show ?thesis
      by (subst fc_loop.simps) (simp add: loop_ok_def)
  next
    case lt: True
    show ?thesis
    proof (cases "extract_function_calls response = []")
      case True
      with lt show ?thesis
        by (subst fc_loop.simps) (simp add: loop_ok_def)
    next
      case calls: False
      obtain frs h1 where rt: "run_tools th h (extract_function_calls response) = (frs, h1)"
        by (cases "run_tools th h (extract_function_calls response)")
      obtain answer c1 where snd: "send c (FunctionResponses frs) = (answer, c1)"
        by (cases "send c (FunctionResponses frs)")
      let ?rd = "\<lparr>rd_reply = response, rd_calls = extract_function_calls response,
                  rd_handler = h, rd_responses = frs, rd_chat = c, rd_answer = answer\<rparr>"
      show ?thesis
      proof (cases answer)
        case (Inl e)
        with lt calls rt snd show ?thesis
          by (subst fc_loop.simps) (simp add: loop_ok_def)
      next
        case (Inr response1)
        let ?r = "fc_loop send th loads (iteration + 1) response1 c1 h1"
        have ih: "loop_ok send th loads (Suc iteration) response1 c1 h1 ?r"
          using "1.IH" [OF lt refl calls rt [symmetric] refl snd [symmetric] refl refl Inr] lt
          by simp
        have eq: "fc_loop send th loads iteration response c h
                    = ?r\<lparr>rounds := ?rd # rounds ?r, iterations := iterations ?r + 1\<rparr>"
          using lt calls rt snd Inr
          by (subst fc_loop.simps) (simp add: Let_def)
        show ?thesis
          unfolding eq using ih calls rt snd Inr
          by (auto simp: loop_ok_def)
      qed
    qed
  qed
qed


text \<open>
  The function-call loop as a whole. One invocation runs at most \<open>max_iterations\<close> = 10
  iterations. The logged rounds are the conversation: each round examines the reply at
  hand, runs the tool handler over its function calls in the reply's order (the i-th
  response is the handler's answer to the i-th call, given after the calls before it),
  sends the gathered responses in one \<open>send_message\<close>, one per call and under the call's
  name, and goes on with the answer to that message. The loop ends on a reply without
  function calls (parse, log, return), on the cap (the last reply is parsed and
  returned), or when \<open>send_message\<close> raises.
\<close>

lemma call_with_tools_conversation:
  "(let r = call_with_tools send tool_handler loads prompt c h in
      max_iterations = 10 \<and> iterations r \<le> max_iterations \<and>
      length (rounds r) \<le> iterations r \<and>
      (\<forall>e c1. send c (Prompt prompt) = (Inl e, c1) \<longrightarrow>
         outcome r = Inl e \<and> rounds r = [] \<and> iterations r = 0) \<and>
      (\<forall>response c1. send c (Prompt prompt) = (Inr response, c1) \<longrightarrow>
         conversation send tool_handler response c1 h (rounds r)
           (parsed_reply r, chat_state r, handler_state r)) \<and>
      (\<forall>rep. parsed_reply r = Some rep \<longrightarrow>
         extract_function_calls rep = [] \<and> length (rounds r) + 1 = iterations r \<and>
           outcome r = final_decision loads rep
         \<or> iterations r = max_iterations \<and> length (rounds r) = max_iterations \<and>
           outcome r = parse_response loads rep) \<and>
      (parsed_reply r = None \<longrightarrow> (\<exists>e. outcome r = Inl e))) \<and>
   (\<forall>h0 calls. map fr_name (fst (run_tools tool_handler h0 calls)) = map fst calls) \<and>
   (\<forall>h0 calls i. i < length calls \<longrightarrow>
      fst (run_tools tool_handler h0 calls) ! i
        = fst (call_tool tool_handler (snd (run_tools tool_handler h0 (take i calls))) (calls ! i)))"
proof (cases "send c (Prompt prompt)")
  case (Pair res c1)
  show ?thesis
  proof (cases res)
    case (Inl e)
    with Pair show ?thesis
      by (simp add: call_with_tools_def max_iterations_def run_tools_names run_tools_nth)
  next
    case (Inr response)
    have eq: "call_with_tools send tool_handler loads prompt c h
                = fc_loop send tool_handler loads 0 response c1 h"
      using Pair Inr by (simp add: call_with_tools_def)
    have "loop_ok send tool_handler loads 0 response c1 h
            (fc_loop send tool_handler loads 0 response c1 h)"
      by (rule fc_loop_ok) simp
    then show ?thesis
      unfolding Let_def eq loop_ok_def
      using Pair Inr
      by (auto simp: max_iterations_def run_tools_names run_tools_nth)
  qed
qed

lemmas chat_defs = call_with_tools_result_def call_with_tools_def fc_loop.simps
  chat_always_calls_def chat_two_calls_def chat_null_rationale_def logging_handler_def
  extract_function_calls_def max_iterations_def parse_response_def final_decision_def
  loads_stub_def text_null_rationale_def json_null_rationale_def call_tool_def
  has_key_def item_def dict_get_def Let_def

lemma always_calls_run:
  "iterations (call_with_tools chat_always_calls logging_handler loads_stub ''p'' 0 []) = 10 \<and>
   length (rounds (call_with_tools chat_always_calls logging_handler loads_stub ''p'' 0 [])) = 10 \<and>
   length (handler_state (call_with_tools chat_always_calls logging_handler loads_stub ''p'' 0 [])) = 10 \<and>
   chat_state (call_with_tools chat_always_calls logging_handler loads_stub ''p'' 0 []) = 11"
  by (simp add: chat_defs)

lemma two_calls_run:
  "outcome (call_with_tools chat_two_calls logging_handler loads_stub ''p'' 0 []) = Inr (JObj []) \<and>
   iterations (call_with_tools chat_two_calls logging_handler loads_stub ''p'' 0 []) = 2 \<and>
   map rd_responses (rounds (call_with_tools chat_two_calls logging_handler loads_stub ''p'' 0 []))
     = [[\<lparr>fr_name = ''query_fine_units'', fr_response = Inr (JObj [(''candidates'', JArr [])])\<rparr>,
         \<lparr>fr_name = ''query_fine_units'', fr_response = Inr (JObj [(''candidates'', JArr [])])\<rparr>]] \<and>
   handler_state (call_with_tools chat_two_calls logging_handler loads_stub ''p'' 0 [])
     = [(''query_fine_units'', [(''lemma'', JStr ''give up'')]),
        (''query_fine_units'', [(''lemma'', JStr ''want'')])]"
  by (simp add: chat_defs)

text \<open>
  C4 (the code at the failing input). The model answers the prompt with no function
  call and the JSON text of two annotations, the second with \<open>rationale: null\<close>. The
  text parses, but the log line \<open>ann.get('rationale', '')[:120]\<close> between
  \<open>_parse_response\<close> and \<open>return final_result\<close> raises on \<open>None\<close> inside the outer \<open>try\<close>,
  so the invocation ends in a \<open>VertexError\<close> instead of returning the parsed JSON. The
  exit at the iteration cap has no such log lines and returns the parsed JSON of the
  same reply.
\<close>

theorem call_with_tools_null_rationale:
  "extract_function_calls [[TextPart text_null_rationale]] = [] \<and>
   parse_response loads_stub [[TextPart text_null_rationale]] = Inr json_null_rationale \<and>
   call_with_tools_result chat_null_rationale logging_handler loads_stub ''p'' 0 []
     = Inl ''Failed to call Gemini: NoneType object is not subscriptable'' \<and>
   iterations (call_with_tools chat_null_rationale logging_handler loads_stub ''p'' 0 []) = 1 \<and>
   outcome (fc_loop chat_null_rationale logging_handler loads_stub 10
              [[TextPart text_null_rationale]] 1 []) = Inr json_null_rationale"
  by (simp add: chat_defs)

lemmas cat_defs = query_fine_units_def query_word_senses_def query_phrase_senses_def
  cat_example_def mk_unit_def lower_def lower_char_def pos_to_db_def POS_TO_DB_def
  word_candidate_def phrase_candidate_def json_opt_def Let_def

lemma sql_eq_iff: "sql_eq a b \<longleftrightarrow> (\<exists>code. b = Some code \<and> a = Some code)"
  by (cases a; cases b) auto

lemma word_query_eq:
  "query_word_senses cat lemma pos lang =
     map word_candidate (take 50 (sort_key fu_id (filter
       (\<lambda>r. (fu_kind r = ''word_sense'' \<and> lower (fu_label r) = lower lemma \<and>
              fu_lang r = lang \<and> fu_status r = ''active'') \<and>
             (case pos of None \<Rightarrow> True
              | Some p \<Rightarrow> p = [] \<or> (\<exists>code. pos_to_db p = Some code \<and> fu_pos r = Some code)))
       (fine_units cat))))"
proof (cases pos)
  case None
  then show ?thesis by (simp add: query_word_senses_def)
next
  case (Some p)
  then show ?thesis
    by (cases "p = []") (simp_all add: query_word_senses_def sql_eq_iff)
qed

text \<open>
  C8 (as amended). \<open>query_fine_units\<close> on a word_sense query returns the candidates of the
  catalog rows of kind word_sense whose label equals the lemma case-insensitively, whose
  lang matches, whose status is active and, when a non-empty pos is supplied, whose pos
  equals the storage code mapped from it (no row when the name maps to NULL, as N/A does):
  in ascending id order, the first 50 of them. On a phrase_sense query pos is not
  consulted: every candidate returned is a row of kind phrase_sense with matching label
  and lang and status active, and all of them are returned when there are at most 50.
  Any other kind gives the empty list; \<open>found\<close> tells whether the list is non-empty.
\<close>

theorem query_fine_units_result:
  "(let matches = (\<lambda>kind r. fu_kind r = kind \<and> lower (fu_label r) = lower lemma \<and>
                       fu_lang r = lang \<and> fu_status r = ''active'');
        pos_ok = (\<lambda>r. case pos of None \<Rightarrow> True
                   | Some p \<Rightarrow> p = [] \<or> (\<exists>code. pos_to_db p = Some code \<and> fu_pos r = Some code));
        W = filter (\<lambda>r. matches ''word_sense'' r \<and> pos_ok r) (fine_units cat);
        P = filter (matches ''phrase_sense'') (fine_units cat);
        word_result = candidates (query_fine_units cat lemma ''word_sense'' pos lang);
        phrase_result = candidates (query_fine_units cat lemma ''phrase_sense'' pos lang)
    in word_result = map word_candidate (take 50 (sort_key fu_id W)) \<and>
       length word_result \<le> 50 \<and>
       (length W \<le> 50 \<longrightarrow> set word_result = word_candidate ` set W) \<and>
       set phrase_result \<subseteq> phrase_candidate ` set P \<and>
       (length P \<le> 50 \<longrightarrow> phrase_result = map phrase_candidate P) \<and>
       (kind \<noteq> ''word_sense'' \<and> kind \<noteq> ''phrase_sense'' \<longrightarrow>
          candidates (query_fine_units cat lemma kind pos lang) = []) \<and>
       found (query_fine_units cat lemma kind pos lang)
         = (candidates (query_fine_units cat lemma kind pos lang) \<noteq> []))"
  unfolding Let_def
  by (simp add: query_fine_units_def word_query_eq query_phrase_senses_def Let_def)

lemma word_example:
  "candidates (query_fine_units cat_example ''RUN'' ''word_sense'' (Some ''v'') ''en'')
     = [word_candidate (mk_unit 2 ''word_sense'' ''Run'' (Some ''v'') ''active'')] \<and>
   map (\<lambda>c. map_of c ''fine_id'')
     (candidates (query_fine_units cat_example ''run'' ''word_sense'' None ''en''))
     = [Some (JInt 2), Some (JInt 4)]"
  by (simp add: cat_defs)

theorem query_fine_units_result_witness:
  "candidates (query_fine_units cat_example ''RUN'' ''word_sense'' (Some ''v'') ''en'')
     = [word_candidate (mk_unit 2 ''word_sense'' ''Run'' (Some ''v'') ''active'')] \<and>
   length (candidates (query_fine_units cat_example ''RUN'' ''word_sense'' (Some ''v'') ''en'')) \<le> 50 \<and>
   map (\<lambda>c. map_of c ''fine_id'')
     (candidates (query_fine_units cat_example ''run'' ''word_sense'' None ''en''))
     = [Some (JInt 2), Some (JInt 4)]"
proof -
  have "length (candidates (query_fine_units cat_example ''RUN'' ''word_sense'' (Some ''v'') ''en'')) \<le> 50"
    using query_fine_units_result [of "''RUN''" "''en''" "Some ''v''" cat_example "''word_sense''"]
    unfolding Let_def by blast
  then show ?thesis
    using word_example by simp
qed

theorem query_fine_units_phrase_pos_counterexample:
  "candidates (query_fine_units cat_example ''give up'' ''phrase_sense'' (Some ''v'') ''en'')
     = [phrase_candidate (mk_unit 5 ''phrase_sense'' ''give up'' None ''active'')] \<and>
   fu_pos (mk_unit 5 ''phrase_sense'' ''give up'' None ''active'') \<noteq> pos_to_db ''v''"
  by (simp add: cat_defs)

lemma query_phrase_senses_no_limit:
  "length (candidates (query_fine_units
      \<lparr>fine_units = map (\<lambda>i. mk_unit (int i) ''phrase_sense'' ''give up'' None ''active'') [0..<n],
       fine_unit_id_seq = int n\<rparr> ''give up'' ''phrase_sense'' None ''en'')) = n"
  by (simp add: query_fine_units_def query_phrase_senses_def mk_unit_def filter_map comp_def)


lemma find_snoc:
  "find P (xs @ [x]) = (case find P xs of Some y \<Rightarrow> Some y | None \<Rightarrow> if P x then Some x else None)"
  by (induction xs) simp_all

lemma create_existing:
  assumes "find (\<lambda>r. fu_external_key r = Some (external_key_of md5 gm lemma definition))
             (fine_units cat) = Some row"
  shows "create_fine_unit md5 gm cat now lemma kind pos definition lang video_uid
           = (\<lparr>cr_fine_id = fu_id row, cr_lemma = fu_label row, cr_pos = fu_pos row,
               cr_def = fu_def row, cr_status = fu_status row,
               cr_note = ''Already exists in database''\<rparr>, cat)"
  using assms by (simp add: create_fine_unit_def fetch_one_def Let_def)

lemma create_new:
  assumes "find (\<lambda>r. fu_external_key r = Some (external_key_of md5 gm lemma definition))
             (fine_units cat) = None"
  shows "\<exists>row. fine_units (snd (create_fine_unit md5 gm cat now lemma kind pos definition lang video_uid))
             = fine_units cat @ [row] \<and>
           fu_id row = fine_unit_id_seq cat \<and> fu_status row = ''pending'' \<and>
           fu_external_key row = Some (external_key_of md5 gm lemma definition) \<and>
           fu_label row = lemma \<and> fu_def row = definition \<and> fu_kind row = kind \<and>
           fu_lang row = lang \<and> fu_pos row = pos_to_db pos \<and>
           cr_fine_id (fst (create_fine_unit md5 gm cat now lemma kind pos definition lang video_uid))
             = fine_unit_id_seq cat \<and>
           cr_status (fst (create_fine_unit md5 gm cat now lemma kind pos definition lang video_uid))
             = ''pending''"
  using assms by (simp add: create_fine_unit_def fetch_one_def Let_def)

lemma create_finds_key:
  "\<exists>row. find (\<lambda>r. fu_external_key r = Some (external_key_of md5 gm lemma definition))
            (fine_units (snd (create_fine_unit md5 gm cat now lemma kind pos definition lang video_uid)))
          = Some row \<and>
         fu_id row = cr_fine_id (fst (create_fine_unit md5 gm cat now lemma kind pos definition
                                        lang video_uid))"
proof (cases "find (\<lambda>r. fu_external_key r = Some (external_key_of md5 gm lemma definition))
                (fine_units cat)")
  case None
  then show ?thesis
    by (simp add: create_fine_unit_def fetch_one_def Let_def find_snoc)
next
  case (Some row)
  then show ?thesis
    by (simp add: create_existing)
qed

lemma create_keeps_found:
  assumes "find P (fine_units cat) = Some row"
  shows "find P (fine_units (snd (create_fine_unit md5 gm cat now lemma kind pos definition
                                    lang video_uid))) = Some row"
  using assms
  by (simp add: create_fine_unit_def fetch_one_def Let_def find_snoc split: option.splits)

text \<open>
  C7. \<open>create_fine_unit\<close> computes the external key \<open>{model}:{lemma}:def_\<close> followed by the
  first 8 characters of the digest of the definition. If a row with this key exists, it
  returns that row's id and inserts nothing; otherwise it inserts a row with status
  pending (its id taken from the sequence) and returns that id. A repeated invocation
  with the same lemma and definition under the same model returns the same id and leaves
  the catalog as it is, also after another \<open>create_fine_unit\<close> call in between.
\<close>

theorem create_fine_unit_idempotent:
  "(let key = gemini_model @ '':'' @ lemma @ '':def_'' @ take 8 (md5_hexdigest definition);
        first = create_fine_unit md5_hexdigest gemini_model cat now lemma kind pos definition
                  lang video_uid;
        again = create_fine_unit md5_hexdigest gemini_model (snd first) now2 lemma kind2 pos2
                  definition lang2 video_uid2;
        other = create_fine_unit md5_hexdigest gemini_model (snd first) now3 lemma3 kind3 pos3
                  definition3 lang3 video_uid3;
        later = create_fine_unit md5_hexdigest gemini_model (snd other) now4 lemma kind4 pos4
                  definition lang4 video_uid4
    in (case find (\<lambda>r. fu_external_key r = Some key) (fine_units cat) of
          Some row \<Rightarrow> cr_fine_id (fst first) = fu_id row \<and> snd first = cat
        | None \<Rightarrow>
            cr_fine_id (fst first) = fine_unit_id_seq cat \<and> cr_status (fst first) = ''pending'' \<and>
            (\<exists>row. fine_units (snd first) = fine_units cat @ [row] \<and>
               fu_id row = fine_unit_id_seq cat \<and> fu_status row = ''pending'' \<and>
               fu_external_key row = Some key \<and> fu_label row = lemma \<and>
               fu_def row = definition \<and> fu_kind row = kind \<and> fu_lang row = lang)) \<and>
       cr_fine_id (fst again) = cr_fine_id (fst first) \<and> snd again = snd first \<and>
       cr_fine_id (fst later) = cr_fine_id (fst first))"
proof -
  let ?key = "external_key_of md5_hexdigest gemini_model lemma definition"
  let ?P = "\<lambda>r. fu_external_key r = Some ?key"
  let ?first = "create_fine_unit md5_hexdigest gemini_model cat now lemma kind pos definition
                  lang video_uid"
  let ?other = "create_fine_unit md5_hexdigest gemini_model (snd ?first) now3 lemma3 kind3 pos3
                  definition3 lang3 video_uid3"
  have key: "gemini_model @ '':'' @ lemma @ '':def_'' @ take 8 (md5_hexdigest definition) = ?key"
    by (simp add: external_key_of_def)
  obtain row where row: "find ?P (fine_units (snd ?first)) = Some row"
      "fu_id row = cr_fine_id (fst ?first)"
    using create_finds_key [of md5_hexdigest gemini_model "lemma" "definition" cat now kind pos lang
        video_uid] by blast
  have again: "create_fine_unit md5_hexdigest gemini_model (snd ?first) now2 lemma kind2 pos2
                  definition lang2 video_uid2
      = (\<lparr>cr_fine_id = fu_id row, cr_lemma = fu_label row, cr_pos = fu_pos row,
          cr_def = fu_def row, cr_status = fu_status row,
          cr_note = ''Already exists in database''\<rparr>, snd ?first)"
    by (rule create_existing [OF row(1)])
  have "find ?P (fine_units (snd ?other)) = Some row"
    by (rule create_keeps_found [OF row(1)])
  then have later: "create_fine_unit md5_hexdigest gemini_model (snd ?other) now4 lemma kind4 pos4
                  definition lang4 video_uid4
      = (\<lparr>cr_fine_id = fu_id row, cr_lemma = fu_label row, cr_pos = fu_pos row,
          cr_def = fu_def row, cr_status = fu_status row,
          cr_note = ''Already exists in database''\<rparr>, snd ?other)"
    by (rule create_existing)
  have first: "case find ?P (fine_units cat) of
          Some row \<Rightarrow> cr_fine_id (fst ?first) = fu_id row \<and> snd ?first = cat
        | None \<Rightarrow>
            cr_fine_id (fst ?first) = fine_unit_id_seq cat \<and> cr_status (fst ?first) = ''pending'' \<and>
            (\<exists>row. fine_units (snd ?first) = fine_units cat @ [row] \<and>
               fu_id row = fine_unit_id_seq cat \<and> fu_status row = ''pending'' \<and>
               fu_external_key row = Some ?key \<and> fu_label row = lemma \<and>
               fu_def row = definition \<and> fu_kind row = kind \<and> fu_lang row = lang)"
  proof (cases "find ?P (fine_units cat)")
    case None
    from create_new [OF None, of now kind pos lang video_uid] show ?thesis
      using None by auto
  next
    case (Some r)
    then show ?thesis by (simp add: create_existing)
  qed
  show ?thesis
    unfolding Let_def key
    using first again later row(2) by simp
qed

lemma create_example:
  "create_fine_unit md5_stub ''gemini-2.0'' cat_example ''2025-01-10T00:00:00'' ''hello''
     ''word_sense'' ''interj'' ''a greeting'' ''en'' (Some ''uid-7'')
   = (\<lparr>cr_fine_id = 6, cr_lemma = ''hello'', cr_pos = Some ''i'', cr_def = ''a greeting'',
       cr_status = ''pending'', cr_note = ''Created by Gemini, pending manual review''\<rparr>,
      cat_example\<lparr>fine_units := fine_units cat_example @
        [\<lparr>fu_id = 6, fu_kind = ''word_sense'', fu_label = ''hello'', fu_lang = ''en'',
          fu_pos = Some ''i'', fu_def = ''a greeting'',
          fu_meta = [(''source'', JStr ''gemini-2.0''), (''lemma_name'', JStr ''hello''),
                     (''pos'', JStr ''interj''), (''definition'', JStr ''a greeting''),
                     (''created_by'', JStr ''gemini_agentic''),
                     (''created_at_timestamp'', JStr ''2025-01-10T00:00:00''),
                     (''video_uid'', JStr ''uid-7'')],
          fu_status = ''pending'',
          fu_external_key = Some ''gemini-2.0:hello:def_5d41402a''\<rparr>],
        fine_unit_id_seq := 7\<rparr>)"
  by (simp add: create_fine_unit_def external_key_of_def md5_stub_def fetch_one_def
        cat_example_def mk_unit_def pos_to_db_def POS_TO_DB_def json_opt_def Let_def)

theorem create_fine_unit_idempotent_witness:
  "cr_fine_id (fst (create_fine_unit md5_stub ''gemini-2.0'' cat_example ''2025-01-10T00:00:00''
      ''hello'' ''word_sense'' ''interj'' ''a greeting'' ''en'' (Some ''uid-7''))) = 6 \<and>
   cr_fine_id (fst (create_fine_unit md5_stub ''gemini-2.0''
      (snd (create_fine_unit md5_stub ''gemini-2.0'' cat_example ''2025-01-10T00:00:00''
         ''hello'' ''word_sense'' ''interj'' ''a greeting'' ''en'' (Some ''uid-7'')))
      ''2025-01-11T00:00:00'' ''hello'' ''word_sense'' ''interj'' ''a greeting'' ''en'' None)) = 6"
proof -
  have six: "cr_fine_id (fst (create_fine_unit md5_stub ''gemini-2.0'' cat_example
      ''2025-01-10T00:00:00'' ''hello'' ''word_sense'' ''interj'' ''a greeting'' ''en''
      (Some ''uid-7''))) = 6"
    by (simp add: create_example)
  show ?thesis
    using create_fine_unit_idempotent [of "''gemini-2.0''" "''hello''" md5_stub "''a greeting''"
        cat_example "''2025-01-10T00:00:00''" "''word_sense''" "''interj''" "''en''" "Some ''uid-7''"
        "''2025-01-11T00:00:00''" "''word_sense''" "''interj''" "''en''" None] six
    unfolding Let_def by simp
qed

end
